theory Spec2Isabelle
  imports Complex_Main "HOL-Library.AList"
begin

section \<open>Python values and arithmetic\<close>

text \<open>
  The calculator works on Python floats. A finite float is modelled as a real number of
  magnitude at most \<open>float_max\<close>, and an operation on finite floats returns the exact
  result when that is in range; rounding inside the range and the sign of zero are left
  out. What leaves the range is modelled as Python has it:

  \<^item> \<^verbatim>\<open>*\<close>, \<^verbatim>\<open>+\<close>, \<^verbatim>\<open>-\<close> and \<^verbatim>\<open>/\<close> raise nothing on overflow: the result is \<^verbatim>\<open>inf\<close> or
    \<^verbatim>\<open>-inf\<close>, and later operations on these follow IEEE 754 (\<^verbatim>\<open>inf - inf\<close>,
    \<^verbatim>\<open>inf * 0\<close> and \<^verbatim>\<open>inf / inf\<close> are \<^verbatim>\<open>nan\<close>). \<^verbatim>\<open>/\<close> raises
    \<^verbatim>\<open>ZeroDivisionError\<close> for a zero divisor.
  \<^item> \<^verbatim>\<open>x ** y\<close> on floats raises \<^verbatim>\<open>OverflowError\<close> when the result leaves the range of
    a double, raises \<^verbatim>\<open>ZeroDivisionError\<close> for \<^verbatim>\<open>0.0\<close> to a negative power, and for a
    negative base with a non-integral exponent it raises nothing: it returns a
    \<^verbatim>\<open>complex\<close>.
  \<^item> \<^verbatim>\<open>math.log10\<close> raises \<^verbatim>\<open>ValueError\<close> outside its domain.
  \<^item> The arithmetic operators accept floats and complex numbers alike, a float being
    coerced to a complex number with imaginary part 0; ordering a complex number (as
    \<^verbatim>\<open>max\<close> does) raises \<^verbatim>\<open>TypeError\<close>.
\<close>

datatype py_error = ValueError | OverflowError | ZeroDivisionError | TypeError | AssertionError

text \<open>The largest finite double, \<^verbatim>\<open>sys.float_info.max\<close>.\<close>

definition float_max :: real where
  "float_max = 2 ^ 1024 - 2 ^ 971"

subsection \<open>Floats\<close>

datatype pyfloat = Finite real | PosInf | NegInf | NaN

text \<open>The float that an operation with exact result \<open>x\<close> returns.\<close>

definition to_range :: "real \<Rightarrow> pyfloat" where
  "to_range x =
    (if x > float_max then PosInf else if x < - float_max then NegInf else Finite x)"

fun fneg :: "pyfloat \<Rightarrow> pyfloat" where
  "fneg (Finite x) = Finite (- x)"
| "fneg PosInf = NegInf"
| "fneg NegInf = PosInf"
| "fneg NaN = NaN"

fun fabs :: "pyfloat \<Rightarrow> pyfloat" where
  "fabs (Finite x) = Finite \<bar>x\<bar>"
| "fabs PosInf = PosInf"
| "fabs NegInf = PosInf"
| "fabs NaN = NaN"

text \<open>The sign of a float that is not nan, and the infinity of a given sign.\<close>

fun fsgn :: "pyfloat \<Rightarrow> real" where
  "fsgn (Finite x) = sgn x"
| "fsgn PosInf = 1"
| "fsgn NegInf = - 1"
| "fsgn NaN = 0"

definition signed_inf :: "real \<Rightarrow> pyfloat" where
  "signed_inf s = (if s > 0 then PosInf else if s < 0 then NegInf else NaN)"

text \<open>\<^verbatim>\<open>a > b\<close> and \<^verbatim>\<open>a >= b\<close> on floats; every comparison with nan is false.\<close>

fun fgt :: "pyfloat \<Rightarrow> pyfloat \<Rightarrow> bool" where
  "fgt NaN b = False"
| "fgt a NaN = False"
| "fgt (Finite x) (Finite y) = (x > y)"
| "fgt PosInf b = (b \<noteq> PosInf)"
| "fgt NegInf b = False"
| "fgt (Finite x) b = (b = NegInf)"

definition fge :: "pyfloat \<Rightarrow> pyfloat \<Rightarrow> bool" where
  "fge a b \<longleftrightarrow> a \<noteq> NaN \<and> b \<noteq> NaN \<and> (fgt a b \<or> a = b)"

fun fmul :: "pyfloat \<Rightarrow> pyfloat \<Rightarrow> pyfloat" where
  "fmul (Finite x) (Finite y) = to_range (x * y)"
| "fmul NaN b = NaN"
| "fmul a NaN = NaN"
| "fmul a b = signed_inf (fsgn a * fsgn b)"

fun fadd :: "pyfloat \<Rightarrow> pyfloat \<Rightarrow> pyfloat" where
  "fadd (Finite x) (Finite y) = to_range (x + y)"
| "fadd NaN b = NaN"
| "fadd a NaN = NaN"
| "fadd PosInf NegInf = NaN"
| "fadd NegInf PosInf = NaN"
| "fadd PosInf b = PosInf"
| "fadd NegInf b = NegInf"
| "fadd (Finite x) b = b"

definition fsub :: "pyfloat \<Rightarrow> pyfloat \<Rightarrow> pyfloat" where
  "fsub a b = fadd a (fneg b)"

text \<open>IEEE division; Python checks for a zero divisor before it divides.\<close>

fun fdiv :: "pyfloat \<Rightarrow> pyfloat \<Rightarrow> pyfloat" where
  "fdiv (Finite x) (Finite y) = (if y = 0 then signed_inf (sgn x) else to_range (x / y))"
| "fdiv NaN b = NaN"
| "fdiv a NaN = NaN"
| "fdiv (Finite x) b = Finite 0"
| "fdiv a (Finite y) = signed_inf (fsgn a * (if y < 0 then - 1 else 1))"
| "fdiv a b = NaN"

subsection \<open>Values\<close>

text \<open>A value is a float or a complex number, which is a pair of floats.\<close>

datatype pyval = PyF pyfloat | PyC pyfloat pyfloat

abbreviation PyFloat :: "real \<Rightarrow> pyval" where
  "PyFloat x \<equiv> PyF (Finite x)"

abbreviation PyComplex :: "complex \<Rightarrow> pyval" where
  "PyComplex z \<equiv> PyC (Finite (Re z)) (Finite (Im z))"

fun re_part :: "pyval \<Rightarrow> pyfloat" where
  "re_part (PyF a) = a"
| "re_part (PyC a b) = a"

fun im_part :: "pyval \<Rightarrow> pyfloat" where
  "im_part (PyF a) = Finite 0"
| "im_part (PyC a b) = b"

fun py_mul :: "pyval \<Rightarrow> pyval \<Rightarrow> pyval" where
  "py_mul (PyF a) (PyF b) = PyF (fmul a b)"
| "py_mul u v =
     PyC (fsub (fmul (re_part u) (re_part v)) (fmul (im_part u) (im_part v)))
         (fadd (fmul (re_part u) (im_part v)) (fmul (im_part u) (re_part v)))"

fun py_add :: "pyval \<Rightarrow> pyval \<Rightarrow> pyval" where
  "py_add (PyF a) (PyF b) = PyF (fadd a b)"
| "py_add u v = PyC (fadd (re_part u) (re_part v)) (fadd (im_part u) (im_part v))"

fun py_sub :: "pyval \<Rightarrow> pyval \<Rightarrow> pyval" where
  "py_sub (PyF a) (PyF b) = PyF (fsub a b)"
| "py_sub u v = PyC (fsub (re_part u) (re_part v)) (fsub (im_part u) (im_part v))"

text \<open>
  The quotient of two complex numbers, as CPython computes it: it scales by the
  larger component of the divisor.
\<close>

definition complex_quot ::
  "pyfloat \<Rightarrow> pyfloat \<Rightarrow> pyfloat \<Rightarrow> pyfloat \<Rightarrow> py_error + pyval" where
  "complex_quot ar ai br bi =
    (let abs_breal = fabs br; abs_bimag = fabs bi in
     if fge abs_breal abs_bimag then
       (if abs_breal = Finite 0 then Inl ZeroDivisionError
        else
          (let ratio = fdiv bi br; denom = fadd br (fmul bi ratio) in
           Inr (PyC (fdiv (fadd ar (fmul ai ratio)) denom)
                    (fdiv (fsub ai (fmul ar ratio)) denom))))
     else if fge abs_bimag abs_breal then
       (let ratio = fdiv br bi; denom = fadd (fmul br ratio) bi in
        Inr (PyC (fdiv (fadd (fmul ar ratio) ai) denom)
                 (fdiv (fsub (fmul ai ratio) ar) denom)))
     else Inr (PyC NaN NaN))"

fun py_truediv :: "pyval \<Rightarrow> pyval \<Rightarrow> py_error + pyval" where
  "py_truediv (PyF a) (PyF b) =
     (if b = Finite 0 then Inl ZeroDivisionError else Inr (PyF (fdiv a b)))"
| "py_truediv u v = complex_quot (re_part u) (im_part u) (re_part v) (im_part v)"

subsection \<open>Powers\<close>

definition is_integral :: "real \<Rightarrow> bool" where
  "is_integral y \<longleftrightarrow> real_of_int \<lfloor>y\<rfloor> = y"

text \<open>
  \<^verbatim>\<open>float.__pow__\<close> on finite floats, in the order of its case analysis: exponent zero,
  base zero, a negative base with a fractional exponent (handed to complex
  exponentiation, whose result has modulus \<open>\<bar>x\<bar> ** y\<close> and argument \<open>pi * y\<close>), and the
  C library's \<^verbatim>\<open>pow\<close> with its range check.
\<close>

definition float_pow :: "real \<Rightarrow> real \<Rightarrow> py_error + pyval" where
  "float_pow x y =
    (if y = 0 then Inr (PyFloat 1)
     else if x = 0 then (if y < 0 then Inl ZeroDivisionError else Inr (PyFloat 0))
     else if x < 0 \<and> \<not> is_integral y then
       (let z = complex_of_real (\<bar>x\<bar> powr y) * cis (pi * y) in
        if \<bar>Re z\<bar> > float_max \<or> \<bar>Im z\<bar> > float_max then Inl OverflowError
        else Inr (PyComplex z))
     else
       (let r = (if x < 0 \<and> odd \<lfloor>y\<rfloor> then - (\<bar>x\<bar> powr y) else \<bar>x\<bar> powr y) in
        if \<bar>r\<bar> > float_max then Inl OverflowError else Inr (PyFloat r)))"

text \<open>
  \<^verbatim>\<open>float.__pow__\<close> on all floats. Before the cases above it treats an exponent zero
  (the result is 1, also for nan), a nan operand, an infinite exponent and an infinite
  base, none of which raises.
\<close>

fun pyfloat_pow :: "pyfloat \<Rightarrow> pyfloat \<Rightarrow> py_error + pyval" where
  "pyfloat_pow (Finite x) (Finite y) = float_pow x y"
| "pyfloat_pow a (Finite y) =
     (if y = 0 then Inr (PyFloat 1)
      else if a = NaN then Inr (PyF NaN)
      else if y > 0 then Inr (PyF (if is_integral y \<and> odd \<lfloor>y\<rfloor> then a else PosInf))
      else Inr (PyFloat 0))"
| "pyfloat_pow a b =
     (if a = NaN then Inr (PyF NaN)
      else if b = NaN then Inr (if a = Finite 1 then PyFloat 1 else PyF NaN)
      else if fabs a = Finite 1 then Inr (PyFloat 1)
      else if (b = PosInf) = fgt (fabs a) (Finite 1) then Inr (PyF PosInf)
      else Inr (PyFloat 0))"

definition math_log10 :: "real \<Rightarrow> py_error + real" where
  "math_log10 x = (if x \<le> 0 then Inl ValueError else Inr (log 10 x))"

text \<open>
  \<^verbatim>\<open>complex.__pow__\<close> on finite operands: exponent zero gives one, base zero is an error
  unless the exponent is a positive real, and otherwise the result is computed in polar
  form and range-checked. The calculator never hands a complex number to \<^verbatim>\<open>**\<close>, and
  for an operand with an infinite or nan component the model gives nan components.
\<close>

definition complex_pow :: "pyfloat \<Rightarrow> pyfloat \<Rightarrow> pyfloat \<Rightarrow> pyfloat \<Rightarrow> py_error + pyval" where
  "complex_pow ar ai br bi =
    (case (ar, ai, br, bi) of
       (Finite x, Finite y, Finite u, Finite v) \<Rightarrow>
         (let a = Complex x y; b = Complex u v in
          if b = 0 then Inr (PyComplex 1)
          else if a = 0 then
            (if Re b < 0 \<or> Im b \<noteq> 0 then Inl ZeroDivisionError else Inr (PyComplex 0))
          else
            (let vabs = cmod a;
                 len = vabs powr Re b / exp (Arg a * Im b);
                 phase = Arg a * Re b + Im b * ln vabs;
                 z = rcis len phase
             in if \<bar>Re z\<bar> > float_max \<or> \<bar>Im z\<bar> > float_max then Inl OverflowError
                else Inr (PyComplex z)))
     | _ \<Rightarrow> Inr (PyC NaN NaN))"

text \<open>The operator \<^verbatim>\<open>**\<close>: floats use \<open>pyfloat_pow\<close>, anything complex is coerced.\<close>

fun py_pow :: "pyval \<Rightarrow> pyval \<Rightarrow> py_error + pyval" where
  "py_pow (PyF a) (PyF b) = pyfloat_pow a b"
| "py_pow u v = complex_pow (re_part u) (im_part u) (re_part v) (im_part v)"

subsection \<open>Comparisons\<close>

text \<open>\<^verbatim>\<open>max(0, x)\<close>: the first argument stays unless \<^verbatim>\<open>x > 0\<close>.\<close>

fun py_max0 :: "pyval \<Rightarrow> py_error + pyval" where
  "py_max0 (PyF a) = Inr (PyF (if fgt a (Finite 0) then a else Finite 0))"
| "py_max0 (PyC a b) = Inl TypeError"

text \<open>\<^verbatim>\<open>x == 0\<close>, which is defined for floats and complex numbers.\<close>

fun py_is_zero :: "pyval \<Rightarrow> bool" where
  "py_is_zero (PyF a) \<longleftrightarrow> a = Finite 0"
| "py_is_zero (PyC a b) \<longleftrightarrow> a = Finite 0 \<and> b = Finite 0"

subsection \<open>Exceptions\<close>

text \<open>A raised exception ends the computation; \<open>bind_exn\<close> is sequencing.\<close>

definition bind_exn :: "py_error + 'a \<Rightarrow> ('a \<Rightarrow> py_error + 'b) \<Rightarrow> py_error + 'b" where
  "bind_exn m f = (case m of Inl e \<Rightarrow> Inl e | Inr v \<Rightarrow> f v)"

text \<open>
  \<^verbatim>\<open>try: ... except (ValueError, OverflowError): return handler\<close>. Every other exception
  passes through.
\<close>

definition try_except :: "py_error + 'a \<Rightarrow> 'a \<Rightarrow> py_error + 'a" where
  "try_except body handler =
    (case body of
       Inl ValueError \<Rightarrow> Inr handler
     | Inl OverflowError \<Rightarrow> Inr handler
     | Inl e \<Rightarrow> Inl e
     | Inr v \<Rightarrow> Inr v)"

section \<open>The calculator's inputs\<close>

record zodiac_calculator =
  zodiac_rarity :: "real option"
  zodiac_quality :: "real option"
  zodiac_level :: "real option"
  luck :: "real option"
  immo_number :: "real option"

datatype input_field = Zodiac_rarity | Zodiac_quality | Zodiac_level | Luck | Immo_number

fun getattr :: "zodiac_calculator \<Rightarrow> input_field \<Rightarrow> real option" where
  "getattr c Zodiac_rarity = zodiac_rarity c"
| "getattr c Zodiac_quality = zodiac_quality c"
| "getattr c Zodiac_level = zodiac_level c"
| "getattr c Luck = luck c"
| "getattr c Immo_number = immo_number c"

fun has_required_inputs :: "zodiac_calculator \<Rightarrow> input_field list \<Rightarrow> bool" where
  "has_required_inputs c [] = True"
| "has_required_inputs c (f # fs) =
     (if getattr c f = None then False else has_required_inputs c fs)"

text \<open>\<^verbatim>\<open>assert self.x is not None\<close>, giving the value.\<close>

definition assert_present :: "real option \<Rightarrow> py_error + real" where
  "assert_present v = (case v of None \<Rightarrow> Inl AssertionError | Some x \<Rightarrow> Inr x)"

section \<open>The basic formulas\<close>

definition calculate_zodiac_sale_price :: "zodiac_calculator \<Rightarrow> py_error + pyval option" where
  "calculate_zodiac_sale_price c =
    (if \<not> has_required_inputs c [Zodiac_rarity, Zodiac_quality, Zodiac_level] then Inr None
     else bind_exn (assert_present (zodiac_rarity c)) (\<lambda>r.
          bind_exn (assert_present (zodiac_quality c)) (\<lambda>q.
          bind_exn (assert_present (zodiac_level c)) (\<lambda>l.
       try_except
         (let rarity_mult = PyFloat (if r > 8 then 2 else 1) in
          bind_exn (if l \<ge> 100 then float_pow ((l - 90) / 10) 2.5 else Inr (PyFloat 1))
            (\<lambda>level_mult.
          bind_exn (float_pow 1.125 r) (\<lambda>pr.
          bind_exn (float_pow l 2) (\<lambda>l2.
          bind_exn (py_truediv
                      (py_mul (py_mul (py_mul (py_mul pr (PyFloat q))
                         (py_add (PyFloat 9) l2)) rarity_mult) level_mult)
                      (PyFloat 10)) (\<lambda>base_calc.
          bind_exn (py_pow base_calc (PyFloat 0.75)) (\<lambda>pb.
          bind_exn (float_pow 1.1 r) (\<lambda>p11.
          Inr (Some (py_mul pb p11)))))))))
         None))))"

definition calculate_zodiac_enhance_price :: "zodiac_calculator \<Rightarrow> py_error + pyval option" where
  "calculate_zodiac_enhance_price c =
    bind_exn (calculate_zodiac_sale_price c) (\<lambda>sell_cost.
      case sell_cost of
        None \<Rightarrow> Inr None
      | Some sc \<Rightarrow>
          if \<not> has_required_inputs c [Zodiac_quality] then Inr None
          else bind_exn (assert_present (zodiac_quality c)) (\<lambda>q.
            try_except
              (bind_exn (math_log10 (1 + q)) (\<lambda>lg.
               bind_exn (float_pow 1.3 lg) (\<lambda>p.
               Inr (Some (py_mul (py_mul sc (PyFloat 2)) p)))))
              None))"

definition calculate_zodiac_enhance_chance :: "zodiac_calculator \<Rightarrow> py_error + pyval option" where
  "calculate_zodiac_enhance_chance c =
    (if \<not> has_required_inputs c [Zodiac_quality] then Inr None
     else bind_exn (assert_present (zodiac_quality c)) (\<lambda>q.
       try_except
         (bind_exn (math_log10 (1 + q)) (\<lambda>lg.
          bind_exn (float_pow lg 2) (\<lambda>e.
          bind_exn (py_pow (PyFloat 0.9) e) (\<lambda>p.
          Inr (Some (py_mul p (PyFloat 100)))))))
         None))"

definition calculate_zodiac_score :: "zodiac_calculator \<Rightarrow> py_error + pyval option" where
  "calculate_zodiac_score c =
    (if \<not> has_required_inputs c [Zodiac_rarity, Zodiac_quality, Zodiac_level] then Inr None
     else bind_exn (assert_present (zodiac_rarity c)) (\<lambda>r.
          bind_exn (assert_present (zodiac_quality c)) (\<lambda>q.
          bind_exn (assert_present (zodiac_level c)) (\<lambda>l.
       try_except
         (let rarity_mult = PyFloat (if r > 8 then 2 else 1) in
          bind_exn (if l \<ge> 100 then float_pow ((l - 90) / 10) 2.5 else Inr (PyFloat 1))
            (\<lambda>level_mult.
          bind_exn (float_pow 1.125 r) (\<lambda>pr.
          bind_exn (float_pow l 2) (\<lambda>l2.
          Inr (Some (py_mul (py_mul (py_mul (py_mul pr (PyFloat q))
                 (py_add (PyFloat 9) l2)) rarity_mult) level_mult))))))
         None))))"

section \<open>The luck transform\<close>

definition calculate_zodiac_luck :: "zodiac_calculator \<Rightarrow> py_error + pyval option" where
  "calculate_zodiac_luck c =
    (if \<not> has_required_inputs c [Luck] then Inr None
     else bind_exn (assert_present (luck c)) (\<lambda>lk.
       try_except
         (if lk < 18 then Inr (Some (PyFloat lk))
          else bind_exn (float_pow (lk - 18) 0.3) (\<lambda>p.
               Inr (Some (py_mul p (PyFloat 18)))))
         None))"

section \<open>The rarity model\<close>

text \<open>
  A \<^verbatim>\<open>Dict[str, float]\<close> is an association list in insertion order; \<^verbatim>\<open>d[k] = v\<close> is
  \<^const>\<open>AList.update\<close>, which replaces the value of a key that is present and appends a
  new key at the end.
\<close>

type_synonym weights = "(string \<times> pyval) list"

subsection \<open>The tier blocks of \<^verbatim>\<open>calculate_rarity_weights\<close>\<close>

text \<open>
  Each \<^verbatim>\<open>if/elif/else\<close> block of the source computes the value stored under one tier.
  The blocks are given one definition each, in the order of the source.
\<close>

definition garbage_weight :: "real \<Rightarrow> py_error + pyval" where
  "garbage_weight zodiac_luck =
    (if 1 \<le> zodiac_luck \<and> zodiac_luck < 2 then
       bind_exn (float_pow 0.8 (zodiac_luck - 1)) (\<lambda>p.
       Inr (py_mul (PyFloat 5) p))
     else if 2 \<le> zodiac_luck \<and> zodiac_luck < 3 then
       bind_exn (float_pow 0.8 (zodiac_luck - 1)) (\<lambda>p.
       bind_exn (float_pow 0.4 (zodiac_luck - 2)) (\<lambda>d.
       Inr (py_mul (py_mul (PyFloat 5) p) d)))
     else Inr (PyFloat 0))"

definition common_weight :: "real \<Rightarrow> py_error + pyval" where
  "common_weight zodiac_luck =
    (if 1 \<le> zodiac_luck \<and> zodiac_luck < 2 then Inr (PyFloat 15)
     else if 2 \<le> zodiac_luck \<and> zodiac_luck < 5 then
       bind_exn (float_pow 0.45 (zodiac_luck - 2)) (\<lambda>d.
       Inr (py_mul (PyFloat 15) d))
     else Inr (PyFloat 0))"

definition uncommon_weight :: "real \<Rightarrow> py_error + pyval" where
  "uncommon_weight zodiac_luck =
    (if 1 \<le> zodiac_luck \<and> zodiac_luck < 3 then
       bind_exn (float_pow 1.5 (zodiac_luck - 1)) (\<lambda>p.
       Inr (py_sub (py_mul (PyFloat 20) p) (PyFloat 12)))
     else if 3 \<le> zodiac_luck \<and> zodiac_luck < 8 then
       bind_exn (float_pow 1.5 (zodiac_luck - 1)) (\<lambda>p.
       bind_exn (float_pow 0.5 (zodiac_luck - 3)) (\<lambda>d.
       Inr (py_mul (py_sub (py_mul (PyFloat 20) p) (PyFloat 12)) d)))
     else Inr (PyFloat 0))"

definition rare_weight :: "real \<Rightarrow> py_error + pyval" where
  "rare_weight zodiac_luck =
    (if 1 \<le> zodiac_luck \<and> zodiac_luck < 5 then
       bind_exn (float_pow 1.45 (zodiac_luck - 1)) (\<lambda>p.
       Inr (py_sub (py_mul (PyFloat 30) p) (PyFloat 28)))
     else if 5 \<le> zodiac_luck \<and> zodiac_luck < 12 then
       bind_exn (float_pow 1.45 (zodiac_luck - 1)) (\<lambda>p.
       bind_exn (float_pow 0.55 (zodiac_luck - 5)) (\<lambda>d.
       Inr (py_mul (py_sub (py_mul (PyFloat 30) p) (PyFloat 28)) d)))
     else Inr (PyFloat 0))"

definition epic_weight :: "real \<Rightarrow> py_error + pyval" where
  "epic_weight zodiac_luck =
    (if 1 \<le> zodiac_luck \<and> zodiac_luck < 8 then
       bind_exn (float_pow 1.4 (zodiac_luck - 2)) (\<lambda>p.
       py_max0 (py_sub (py_mul (PyFloat 45) p) (PyFloat 50)))
     else if 8 \<le> zodiac_luck \<and> zodiac_luck < 20 then
       bind_exn (float_pow 1.4 (zodiac_luck - 2)) (\<lambda>p.
       bind_exn (py_max0 (py_sub (py_mul (PyFloat 45) p) (PyFloat 50))) (\<lambda>m.
       bind_exn (float_pow 0.6 (zodiac_luck - 8)) (\<lambda>d.
       Inr (py_mul m d))))
     else Inr (PyFloat 0))"

definition legendary_weight :: "real \<Rightarrow> py_error + pyval" where
  "legendary_weight zodiac_luck =
    (if 1 \<le> zodiac_luck \<and> zodiac_luck < 12 then
       bind_exn (float_pow 1.36 (zodiac_luck - 3)) (\<lambda>p.
       py_max0 (py_sub (py_mul (PyFloat 80) p) (PyFloat 100)))
     else if 12 \<le> zodiac_luck \<and> zodiac_luck < 30 then
       bind_exn (float_pow 1.36 (zodiac_luck - 3)) (\<lambda>p.
       bind_exn (py_max0 (py_sub (py_mul (PyFloat 80) p) (PyFloat 100))) (\<lambda>m.
       bind_exn (float_pow 0.64 (zodiac_luck - 12)) (\<lambda>d.
       Inr (py_mul m d))))
     else Inr (PyFloat 0))"

definition mythic_weight :: "real \<Rightarrow> py_error + pyval" where
  "mythic_weight zodiac_luck =
    (if 1 \<le> zodiac_luck \<and> zodiac_luck < 20 then
       bind_exn (float_pow 1.3 (zodiac_luck - 5)) (\<lambda>p.
       py_max0 (py_sub (py_mul (PyFloat 120) p) (PyFloat 140)))
     else if 20 \<le> zodiac_luck \<and> zodiac_luck < 50 then
       bind_exn (float_pow 1.3 (zodiac_luck - 5)) (\<lambda>p.
       bind_exn (py_max0 (py_sub (py_mul (PyFloat 120) p) (PyFloat 140))) (\<lambda>m.
       bind_exn (float_pow 0.67 (zodiac_luck - 20)) (\<lambda>d.
       Inr (py_mul m d))))
     else Inr (PyFloat 0))"

definition godly_weight :: "real \<Rightarrow> py_error + pyval" where
  "godly_weight zodiac_luck =
    (if 1 \<le> zodiac_luck \<and> zodiac_luck < 30 then
       bind_exn (float_pow 1.25 (zodiac_luck - 8)) (\<lambda>p.
       py_max0 (py_sub (py_mul (PyFloat 150) p) (PyFloat 200)))
     else if 30 \<le> zodiac_luck \<and> zodiac_luck < 60 then
       bind_exn (float_pow 1.25 (zodiac_luck - 8)) (\<lambda>p.
       bind_exn (py_max0 (py_sub (py_mul (PyFloat 150) p) (PyFloat 200))) (\<lambda>m.
       bind_exn (float_pow 0.7 (zodiac_luck - 30)) (\<lambda>d.
       Inr (py_mul m d))))
     else Inr (PyFloat 0))"

definition divine_weight :: "real \<Rightarrow> py_error + pyval" where
  "divine_weight zodiac_luck =
    (if 1 \<le> zodiac_luck \<and> zodiac_luck < 40 then
       bind_exn (float_pow 1.2 (zodiac_luck - 12)) (\<lambda>p.
       py_max0 (py_sub (py_mul (PyFloat 200) p) (PyFloat 300)))
     else if 40 \<le> zodiac_luck \<and> zodiac_luck < 50 then
       bind_exn (float_pow 1.2 (zodiac_luck - 12)) (\<lambda>p.
       bind_exn (py_max0 (py_sub (py_mul (PyFloat 200) p) (PyFloat 300))) (\<lambda>m.
       bind_exn (float_pow 0.92 (zodiac_luck - 40)) (\<lambda>d.
       Inr (py_mul m d))))
     else if 50 \<le> zodiac_luck \<and> zodiac_luck < 70 then
       bind_exn (float_pow 1.2 (zodiac_luck - 12)) (\<lambda>p.
       bind_exn (py_max0 (py_sub (py_mul (PyFloat 200) p) (PyFloat 300))) (\<lambda>m.
       bind_exn (float_pow 0.92 (zodiac_luck - 40)) (\<lambda>d.
       bind_exn (float_pow 0.75 (zodiac_luck - 50)) (\<lambda>d2.
       Inr (py_mul (py_mul m d) d2)))))
     else Inr (PyFloat 0))"

definition immortal_weight :: "real \<Rightarrow> py_error + pyval" where
  "immortal_weight zodiac_luck =
     bind_exn (float_pow 1.1 (zodiac_luck - 20)) (\<lambda>p.
     py_max0 (py_sub (py_mul (PyFloat 300) p) (PyFloat 500)))"

subsection \<open>\<^verbatim>\<open>calculate_rarity_weights\<close>\<close>

text \<open>\<^verbatim>\<open>weights[k] = <block>\<close>: the block may raise, and then nothing is stored.\<close>

definition assign :: "string \<Rightarrow> py_error + pyval \<Rightarrow> weights \<Rightarrow> py_error + weights" where
  "assign k block ws = bind_exn block (\<lambda>v. Inr (AList.update k v ws))"

text \<open>The body of the \<^verbatim>\<open>try\<close>: the ten assignments in sequence, from the empty dict.\<close>

definition rarity_weights_body :: "real \<Rightarrow> py_error + weights" where
  "rarity_weights_body zodiac_luck =
     bind_exn (assign ''Garbage'' (garbage_weight zodiac_luck) []) (\<lambda>ws.
     bind_exn (assign ''Common'' (common_weight zodiac_luck) ws) (\<lambda>ws.
     bind_exn (assign ''Uncommon'' (uncommon_weight zodiac_luck) ws) (\<lambda>ws.
     bind_exn (assign ''Rare'' (rare_weight zodiac_luck) ws) (\<lambda>ws.
     bind_exn (assign ''Epic'' (epic_weight zodiac_luck) ws) (\<lambda>ws.
     bind_exn (assign ''Legendary'' (legendary_weight zodiac_luck) ws) (\<lambda>ws.
     bind_exn (assign ''Mythic'' (mythic_weight zodiac_luck) ws) (\<lambda>ws.
     bind_exn (assign ''Godly'' (godly_weight zodiac_luck) ws) (\<lambda>ws.
     bind_exn (assign ''Divine'' (divine_weight zodiac_luck) ws) (\<lambda>ws.
     assign ''Immortal'' (immortal_weight zodiac_luck) ws)))))))))"

definition rarities :: "string list" where
  "rarities = [''Garbage'', ''Common'', ''Uncommon'', ''Rare'', ''Epic'', ''Legendary'',
               ''Mythic'', ''Godly'', ''Divine'', ''Immortal'']"

text \<open>The dict comprehension of the handler, \<^verbatim>\<open>{rarity: 0.0 for rarity in [...]}\<close>.\<close>

definition zero_weights :: weights where
  "zero_weights = fold (\<lambda>rarity ws. AList.update rarity (PyFloat 0) ws) rarities []"

definition calculate_rarity_weights :: "real \<Rightarrow> py_error + weights" where
  "calculate_rarity_weights zodiac_luck =
     try_except (rarity_weights_body zodiac_luck) zero_weights"

subsection \<open>\<^verbatim>\<open>calculate_rarity_chances\<close>\<close>

text \<open>\<^verbatim>\<open>sum(values)\<close> starts from 0 and adds from the left.\<close>

definition py_sum :: "pyval list \<Rightarrow> pyval" where
  "py_sum vs = foldl py_add (PyFloat 0) vs"

fun chances_loop :: "pyval \<Rightarrow> weights \<Rightarrow> weights \<Rightarrow> py_error + weights" where
  "chances_loop total_weight [] chances = Inr chances"
| "chances_loop total_weight ((rarity, weight) # items) chances =
     bind_exn (py_truediv weight total_weight) (\<lambda>q.
     chances_loop total_weight items (AList.update rarity (py_mul q (PyFloat 100)) chances))"

definition calculate_rarity_chances :: "weights \<Rightarrow> py_error + weights" where
  "calculate_rarity_chances weights =
    (let total_weight = py_sum (map snd weights) in
     if py_is_zero total_weight then
       Inr (fold (\<lambda>rarity ws. AList.update rarity (PyFloat 0) ws) (map fst weights) [])
     else chances_loop total_weight weights [])"

section \<open>The specification's side\<close>

text \<open>
  An input field holds a float, so its magnitude is at most \<open>float_max\<close>.
\<close>

definition is_float :: "real \<Rightarrow> bool" where
  "is_float x \<longleftrightarrow> \<bar>x\<bar> \<le> float_max"

subsection \<open>The weight table\<close>

text \<open>
  The table of the specification, row by row, over the reals: \<open>L\<close> is the zodiac luck,
  each range is half-open, and a tier is 0 outside its ranges.
\<close>

definition garbage_table :: "real \<Rightarrow> real" where
  "garbage_table L =
    (if 1 \<le> L \<and> L < 2 then 5 * 0.8 powr (L - 1)
     else if 2 \<le> L \<and> L < 3 then 5 * 0.8 powr (L - 1) * 0.4 powr (L - 2)
     else 0)"

definition common_table :: "real \<Rightarrow> real" where
  "common_table L =
    (if 1 \<le> L \<and> L < 2 then 15
     else if 2 \<le> L \<and> L < 5 then 15 * 0.45 powr (L - 2)
     else 0)"

definition uncommon_table :: "real \<Rightarrow> real" where
  "uncommon_table L =
    (if 1 \<le> L \<and> L < 3 then 20 * 1.5 powr (L - 1) - 12
     else if 3 \<le> L \<and> L < 8 then (20 * 1.5 powr (L - 1) - 12) * 0.5 powr (L - 3)
     else 0)"

definition rare_table :: "real \<Rightarrow> real" where
  "rare_table L =
    (if 1 \<le> L \<and> L < 5 then 30 * 1.45 powr (L - 1) - 28
     else if 5 \<le> L \<and> L < 12 then (30 * 1.45 powr (L - 1) - 28) * 0.55 powr (L - 5)
     else 0)"

definition epic_table :: "real \<Rightarrow> real" where
  "epic_table L =
    (if 1 \<le> L \<and> L < 8 then max 0 (45 * 1.4 powr (L - 2) - 50)
     else if 8 \<le> L \<and> L < 20 then max 0 (45 * 1.4 powr (L - 2) - 50) * 0.6 powr (L - 8)
     else 0)"

definition legendary_table :: "real \<Rightarrow> real" where
  "legendary_table L =
    (if 1 \<le> L \<and> L < 12 then max 0 (80 * 1.36 powr (L - 3) - 100)
     else if 12 \<le> L \<and> L < 30 then max 0 (80 * 1.36 powr (L - 3) - 100) * 0.64 powr (L - 12)
     else 0)"

definition mythic_table :: "real \<Rightarrow> real" where
  "mythic_table L =
    (if 1 \<le> L \<and> L < 20 then max 0 (120 * 1.3 powr (L - 5) - 140)
     else if 20 \<le> L \<and> L < 50 then max 0 (120 * 1.3 powr (L - 5) - 140) * 0.67 powr (L - 20)
     else 0)"

definition godly_table :: "real \<Rightarrow> real" where
  "godly_table L =
    (if 1 \<le> L \<and> L < 30 then max 0 (150 * 1.25 powr (L - 8) - 200)
     else if 30 \<le> L \<and> L < 60 then max 0 (150 * 1.25 powr (L - 8) - 200) * 0.7 powr (L - 30)
     else 0)"

definition divine_table :: "real \<Rightarrow> real" where
  "divine_table L =
    (if 1 \<le> L \<and> L < 40 then max 0 (200 * 1.2 powr (L - 12) - 300)
     else if 40 \<le> L \<and> L < 50 then
       max 0 (200 * 1.2 powr (L - 12) - 300) * 0.92 powr (L - 40)
     else if 50 \<le> L \<and> L < 70 then
       max 0 (200 * 1.2 powr (L - 12) - 300) * 0.92 powr (L - 40) * 0.75 powr (L - 50)
     else 0)"

definition immortal_table :: "real \<Rightarrow> real" where
  "immortal_table L = max 0 (300 * 1.1 powr (L - 20) - 500)"

definition spec_table :: "real \<Rightarrow> (string \<times> real) list" where
  "spec_table L =
    [(''Garbage'', garbage_table L), (''Common'', common_table L),
     (''Uncommon'', uncommon_table L), (''Rare'', rare_table L),
     (''Epic'', epic_table L), (''Legendary'', legendary_table L),
     (''Mythic'', mythic_table L), (''Godly'', godly_table L),
     (''Divine'', divine_table L), (''Immortal'', immortal_table L)]"

text \<open>A dict of real numbers, as the dict of floats the code handles.\<close>

definition float_dict :: "(string \<times> real) list \<Rightarrow> weights" where
  "float_dict kvs = map (\<lambda>(k, w). (k, PyFloat w)) kvs"

subsection \<open>Reading the result of the code\<close>

text \<open>
  \<open>weight_of t L\<close> is what \<^verbatim>\<open>calculate_rarity_weights(L)[t]\<close> evaluates to, and
  \<open>tier_weight t L\<close> is that value as a real number. Lemma \<open>weight_of_float\<close> shows
  that for every tier but Immortal it always is a finite float, so the fallback 0 is
  never taken there; the weight of Immortal can be \<^verbatim>\<open>inf\<close>.
\<close>

definition weight_of :: "string \<Rightarrow> real \<Rightarrow> pyval option" where
  "weight_of t L = (case calculate_rarity_weights L of Inl e \<Rightarrow> None | Inr ws \<Rightarrow> map_of ws t)"

definition tier_weight :: "string \<Rightarrow> real \<Rightarrow> real" where
  "tier_weight t L = (case weight_of t L of Some (PyFloat w) \<Rightarrow> w | _ \<Rightarrow> 0)"

text \<open>A float that is not negative: a finite float from 0 on, or \<^verbatim>\<open>inf\<close>.\<close>

fun py_nonneg :: "pyval \<Rightarrow> bool" where
  "py_nonneg (PyF (Finite x)) \<longleftrightarrow> 0 \<le> x"
| "py_nonneg (PyF PosInf) \<longleftrightarrow> True"
| "py_nonneg v \<longleftrightarrow> False"

fun is_finite_float :: "pyval \<Rightarrow> bool" where
  "is_finite_float (PyF (Finite x)) \<longleftrightarrow> True"
| "is_finite_float v \<longleftrightarrow> False"

text \<open>
  The points inside a tier's range where the source changes formula by adding a decay
  factor: the lower bound of each \<^verbatim>\<open>elif\<close> of the source.
\<close>

definition breakpoints :: "(string \<times> real) list" where
  "breakpoints =
    [(''Garbage'', 2), (''Common'', 2), (''Uncommon'', 3), (''Rare'', 5), (''Epic'', 8),
     (''Legendary'', 12), (''Mythic'', 20), (''Godly'', 30), (''Divine'', 40),
     (''Divine'', 50)]"

text \<open>
  Where each tier's decay begins for good: the first of its breakpoints, except for
  Divine, whose weight still grows on \<open>[40, 50)\<close> and decays from its second breakpoint.
  Immortal has no decay range.
\<close>

definition decay_starts :: "(string \<times> real) list" where
  "decay_starts =
    [(''Garbage'', 2), (''Common'', 2), (''Uncommon'', 3), (''Rare'', 5), (''Epic'', 8),
     (''Legendary'', 12), (''Mythic'', 20), (''Godly'', 30), (''Divine'', 50)]"

subsection \<open>The score\<close>

text \<open>
  The specification's score: \<open>1.125^r * q * (9 + l^2) * rarityMult * levelMult\<close> with
  \<open>rarityMult = 2 if r > 8 else 1\<close> and \<open>levelMult = ((l-90)/10)^2.5 if l >= 100 else 1\<close>.
\<close>

definition score_formula :: "real \<Rightarrow> real \<Rightarrow> real \<Rightarrow> real" where
  "score_formula r q l =
     1.125 powr r * q * (9 + l\<^sup>2) * (if r > 8 then 2 else 1) *
     (if l \<ge> 100 then ((l - 90) / 10) powr 2.5 else 1)"

text \<open>
  The three powers of the score are out of the range of a double for these inputs.
\<close>

definition score_overflows :: "real \<Rightarrow> real \<Rightarrow> bool" where
  "score_overflows r l \<longleftrightarrow>
     (l \<ge> 100 \<and> ((l - 90) / 10) powr 2.5 > float_max) \<or> 1.125 powr r > float_max \<or>
     l\<^sup>2 > float_max"

text \<open>
  The product of the score as the code evaluates it, from the values of its three
  powers: each \<^verbatim>\<open>*\<close> and the \<^verbatim>\<open>+\<close> may overflow to \<^verbatim>\<open>inf\<close>.
\<close>

definition score_value :: "real \<Rightarrow> real \<Rightarrow> real \<Rightarrow> pyval" where
  "score_value r q l =
     py_mul (py_mul (py_mul (py_mul (PyFloat (1.125 powr r)) (PyFloat q))
               (py_add (PyFloat 9) (PyFloat (l\<^sup>2))))
               (PyFloat (if r > 8 then 2 else 1)))
            (PyFloat (if l \<ge> 100 then ((l - 90) / 10) powr 2.5 else 1))"

subsection \<open>Normalisation\<close>

text \<open>
  The specification's normalisation: \<open>chance[tier] = weight[tier] / sum(all weights) * 100\<close>,
  and every chance is zero when the total is exactly zero.
\<close>

definition normalised :: "(string \<times> real) list \<Rightarrow> (string \<times> real) list" where
  "normalised kvs =
    (let T = sum_list (map snd kvs) in
     map (\<lambda>(k, w). (k, if T = 0 then 0 else w / T * 100)) kvs)"

section \<open>Evaluating the model\<close>

subsection \<open>Results that stay in range\<close>

lemma one_le_float_max: "1 \<le> float_max" by (simp add: float_max_def)
lemma two_pow_70_le: "2 ^ 70 \<le> float_max" by (simp add: float_max_def)
lemma two_pow_100_le: "2 ^ 100 \<le> float_max" by (simp add: float_max_def)

lemma to_range_Finite: "\<bar>x\<bar> \<le> float_max \<Longrightarrow> to_range x = Finite x"
  by (auto simp: to_range_def)

lemma to_range_Finite_iff: "to_range x = Finite y \<longleftrightarrow> \<bar>x\<bar> \<le> float_max \<and> y = x"
  by (auto simp: to_range_def)

lemma to_range_small: "\<bar>x\<bar> \<le> 2 ^ 100 \<Longrightarrow> to_range x = Finite x"
  using two_pow_100_le by (intro to_range_Finite) simp

lemma float_pow_pos:
  "0 < b \<Longrightarrow> float_pow b e =
     (if b powr e > float_max then Inl OverflowError else Inr (PyFloat (b powr e)))"
  using one_le_float_max by (auto simp: float_pow_def Let_def)

lemma powr_decay_le: "0 < b \<Longrightarrow> b \<le> 1 \<Longrightarrow> 0 \<le> e \<Longrightarrow> b powr e \<le> float_max"
  using one_le_float_max powr_le1[of e b] by simp

lemma powr_rise_le_70:
  assumes "1 \<le> b" "b \<le> 2" "e \<le> 70" shows "(b::real) powr e \<le> 2 ^ 70"
proof -
  have "b powr e \<le> b powr 70" using assms by (intro powr_mono) auto
  also have "\<dots> \<le> 2 powr 70" using assms by (intro powr_mono2) auto
  also have "\<dots> = 2 ^ 70" by simp
  finally show ?thesis .
qed

lemma float_pow_decay:
  "0 < b \<Longrightarrow> b \<le> 1 \<Longrightarrow> 0 \<le> e \<Longrightarrow> float_pow b e = Inr (PyFloat (b powr e))"
  using powr_decay_le[of b e] by (simp add: float_pow_pos)

lemma float_pow_rise:
  "1 \<le> b \<Longrightarrow> b \<le> 2 \<Longrightarrow> e \<le> 70 \<Longrightarrow> float_pow b e = Inr (PyFloat (b powr e))"
  using powr_rise_le_70[of b e] two_pow_70_le by (simp add: float_pow_pos)

subsection \<open>The shapes of the tier blocks\<close>

text \<open>
  A coefficient times a rising power, less a constant: in the ranges of the source the
  power is at most \<open>2 ^ 70\<close> and the coefficients at most 512, so nothing overflows.
\<close>

lemma mul_value: "\<bar>x * y\<bar> \<le> 2 ^ 100 \<Longrightarrow> py_mul (PyFloat x) (PyFloat y) = PyFloat (x * y)"
  by (simp add: to_range_small)

lemma sub_value: "\<bar>x - y\<bar> \<le> 2 ^ 100 \<Longrightarrow> py_sub (PyFloat x) (PyFloat y) = PyFloat (x - y)"
  by (simp add: fsub_def to_range_small)

lemma max0_value: "py_max0 (PyFloat x) = Inr (PyFloat (max 0 x))"
  by (simp add: max_def)

lemma abs_max0: "\<bar>x\<bar> \<le> k \<Longrightarrow> \<bar>max 0 x\<bar> \<le> (k::real)"
  by (auto simp: max_def)

lemma base_value:
  assumes "1 \<le> b" "b \<le> 2" "e \<le> 70" "0 \<le> C" "C \<le> 512" "0 \<le> D" "D \<le> 512"
  shows "py_sub (py_mul (PyFloat C) (PyFloat (b powr e))) (PyFloat D) =
           PyFloat (C * b powr e - D)"
    and "\<bar>C * b powr e - D\<bar> \<le> 2 ^ 80"
proof -
  have p: "0 \<le> b powr e" "b powr e \<le> 2 ^ 70"
    using powr_rise_le_70[OF assms(1-3)] by simp_all
  have "C * b powr e \<le> 512 * 2 ^ 70" using assms p by (intro mult_mono) auto
  moreover have 0: "0 \<le> C * b powr e" using assms p by simp
  ultimately have m: "\<bar>C * b powr e\<bar> \<le> 2 ^ 79" by simp
  have "\<bar>C * b powr e - D\<bar> \<le> \<bar>C * b powr e\<bar> + \<bar>D\<bar>" by (rule abs_triangle_ineq4)
  also have "\<dots> \<le> 2 ^ 79 + 512" using m assms by simp
  also have "\<dots> \<le> (2::real) ^ 80" by simp
  finally show s: "\<bar>C * b powr e - D\<bar> \<le> 2 ^ 80" .
  have 1: "py_mul (PyFloat C) (PyFloat (b powr e)) = PyFloat (C * b powr e)"
    using m by (intro mul_value) simp
  have 2: "py_sub (PyFloat (C * b powr e)) (PyFloat D) = PyFloat (C * b powr e - D)"
    using s by (intro sub_value) simp
  show "py_sub (py_mul (PyFloat C) (PyFloat (b powr e))) (PyFloat D) =
           PyFloat (C * b powr e - D)"
    by (simp only: 1 2)
qed

lemma decay_value:
  assumes "\<bar>x\<bar> \<le> 2 ^ 80" "0 < q" "q \<le> 1" "0 \<le> e"
  shows "py_mul (PyFloat x) (PyFloat (q powr e)) = PyFloat (x * q powr e)"
    and "\<bar>x * q powr e\<bar> \<le> 2 ^ 80"
proof -
  have d: "0 \<le> q powr e" "q powr e \<le> 1" using assms powr_le1[of e q] by simp_all
  have "\<bar>x * q powr e\<bar> = \<bar>x\<bar> * q powr e" using d by (simp add: abs_mult)
  also have "\<dots> \<le> \<bar>x\<bar> * 1" using d by (intro mult_left_mono) auto
  finally show s: "\<bar>x * q powr e\<bar> \<le> 2 ^ 80" using assms(1) by simp
  show "py_mul (PyFloat x) (PyFloat (q powr e)) = PyFloat (x * q powr e)"
    using s by (intro mul_value) simp
qed

lemmas eval_seq = bind_exn_def sum.case

lemma block_rise:
  assumes "1 \<le> b" "b \<le> 2" "e \<le> 70" "0 \<le> C" "C \<le> 512" "0 \<le> D" "D \<le> 512"
  shows "bind_exn (float_pow b e) (\<lambda>p. Inr (py_sub (py_mul (PyFloat C) p) (PyFloat D))) =
           Inr (PyFloat (C * b powr e - D))"
  by (simp only: eval_seq float_pow_rise[OF assms(1-3)] base_value(1)[OF assms])

lemma block_rise_decay:
  assumes "1 \<le> b" "b \<le> 2" "e \<le> 70" "0 \<le> C" "C \<le> 512" "0 \<le> D" "D \<le> 512"
    and "0 < q" "q \<le> 1" "0 \<le> e'"
  shows "bind_exn (float_pow b e) (\<lambda>p. bind_exn (float_pow q e') (\<lambda>d.
           Inr (py_mul (py_sub (py_mul (PyFloat C) p) (PyFloat D)) d))) =
           Inr (PyFloat ((C * b powr e - D) * q powr e'))"
  by (simp only: eval_seq float_pow_rise[OF assms(1-3)] float_pow_decay[OF assms(8-10)]
        base_value(1)[OF assms(1-7)]
        decay_value(1)[OF base_value(2)[OF assms(1-7)] assms(8-10)])

lemma block_max:
  assumes "1 \<le> b" "b \<le> 2" "e \<le> 70" "0 \<le> C" "C \<le> 512" "0 \<le> D" "D \<le> 512"
  shows "bind_exn (float_pow b e) (\<lambda>p. py_max0 (py_sub (py_mul (PyFloat C) p) (PyFloat D))) =
           Inr (PyFloat (max 0 (C * b powr e - D)))"
  by (simp only: eval_seq float_pow_rise[OF assms(1-3)] base_value(1)[OF assms] max0_value)

lemma block_max_decay:
  assumes "1 \<le> b" "b \<le> 2" "e \<le> 70" "0 \<le> C" "C \<le> 512" "0 \<le> D" "D \<le> 512"
    and "0 < q" "q \<le> 1" "0 \<le> e'"
  shows "bind_exn (float_pow b e) (\<lambda>p.
         bind_exn (py_max0 (py_sub (py_mul (PyFloat C) p) (PyFloat D))) (\<lambda>m.
         bind_exn (float_pow q e') (\<lambda>d. Inr (py_mul m d)))) =
           Inr (PyFloat (max 0 (C * b powr e - D) * q powr e'))"
proof -
  have 1: "\<bar>max 0 (C * b powr e - D)\<bar> \<le> 2 ^ 80"
    using base_value(2)[OF assms(1-7)] by (rule abs_max0)
  show ?thesis
    by (simp only: eval_seq float_pow_rise[OF assms(1-3)] float_pow_decay[OF assms(8-10)]
          base_value(1)[OF assms(1-7)] max0_value decay_value(1)[OF 1 assms(8-10)])
qed

lemma block_max_decay2:
  assumes "1 \<le> b" "b \<le> 2" "e \<le> 70" "0 \<le> C" "C \<le> 512" "0 \<le> D" "D \<le> 512"
    and "0 < q" "q \<le> 1" "0 \<le> e'" and "0 < q'" "q' \<le> 1" "0 \<le> e''"
  shows "bind_exn (float_pow b e) (\<lambda>p.
         bind_exn (py_max0 (py_sub (py_mul (PyFloat C) p) (PyFloat D))) (\<lambda>m.
         bind_exn (float_pow q e') (\<lambda>d.
         bind_exn (float_pow q' e'') (\<lambda>d2. Inr (py_mul (py_mul m d) d2))))) =
           Inr (PyFloat (max 0 (C * b powr e - D) * q powr e' * q' powr e''))"
proof -
  have 1: "\<bar>max 0 (C * b powr e - D)\<bar> \<le> 2 ^ 80"
    using base_value(2)[OF assms(1-7)] by (rule abs_max0)
  have 2: "\<bar>max 0 (C * b powr e - D) * q powr e'\<bar> \<le> 2 ^ 80"
    using 1 assms(8-10) by (rule decay_value(2))
  show ?thesis
    by (simp only: eval_seq float_pow_rise[OF assms(1-3)] float_pow_decay[OF assms(8-10)]
          float_pow_decay[OF assms(11-13)] base_value(1)[OF assms(1-7)] max0_value
          decay_value(1)[OF 1 assms(8-10)] decay_value(1)[OF 2 assms(11-13)])
qed

lemma block_decay:
  assumes "0 \<le> C" "C \<le> 512" "0 < q" "q \<le> 1" "0 \<le> e"
  shows "bind_exn (float_pow q e) (\<lambda>d. Inr (py_mul (PyFloat C) d)) =
           Inr (PyFloat (C * q powr e))"
proof -
  have 1: "\<bar>C\<bar> \<le> 2 ^ 80" using assms by simp
  show ?thesis
    by (simp only: eval_seq float_pow_decay[OF assms(3-5)] decay_value(1)[OF 1 assms(3-5)])
qed

lemma block_decay2:
  assumes "0 \<le> C" "C \<le> 512" "0 < q" "q \<le> 1" "0 \<le> e" "0 < q'" "q' \<le> 1" "0 \<le> e'"
  shows "bind_exn (float_pow q e) (\<lambda>p. bind_exn (float_pow q' e') (\<lambda>d.
           Inr (py_mul (py_mul (PyFloat C) p) d))) =
           Inr (PyFloat (C * q powr e * q' powr e'))"
proof -
  have 1: "\<bar>C\<bar> \<le> 2 ^ 80" using assms by simp
  have 2: "\<bar>C * q powr e\<bar> \<le> 2 ^ 80" using 1 assms(3-5) by (rule decay_value(2))
  show ?thesis
    by (simp only: eval_seq float_pow_decay[OF assms(3-5)] float_pow_decay[OF assms(6-8)]
          decay_value(1)[OF 1 assms(3-5)] decay_value(1)[OF 2 assms(6-8)])
qed

lemmas tier_simps = block_rise block_rise_decay block_max block_max_decay block_max_decay2
  block_decay block_decay2

subsection \<open>The code computes the table\<close>

lemma garbage_weight_eq: "garbage_weight L = Inr (PyFloat (garbage_table L))"
  by (simp add: garbage_weight_def garbage_table_def tier_simps)
lemma common_weight_eq: "common_weight L = Inr (PyFloat (common_table L))"
  by (simp add: common_weight_def common_table_def tier_simps)
lemma uncommon_weight_eq: "uncommon_weight L = Inr (PyFloat (uncommon_table L))"
  by (simp add: uncommon_weight_def uncommon_table_def tier_simps)
lemma rare_weight_eq: "rare_weight L = Inr (PyFloat (rare_table L))"
  by (simp add: rare_weight_def rare_table_def tier_simps)
lemma epic_weight_eq: "epic_weight L = Inr (PyFloat (epic_table L))"
  by (simp add: epic_weight_def epic_table_def tier_simps)
lemma legendary_weight_eq: "legendary_weight L = Inr (PyFloat (legendary_table L))"
  by (simp add: legendary_weight_def legendary_table_def tier_simps)
lemma mythic_weight_eq: "mythic_weight L = Inr (PyFloat (mythic_table L))"
  by (simp add: mythic_weight_def mythic_table_def tier_simps)
lemma godly_weight_eq: "godly_weight L = Inr (PyFloat (godly_table L))"
  by (simp add: godly_weight_def godly_table_def tier_simps)
lemma divine_weight_eq: "divine_weight L = Inr (PyFloat (divine_table L))"
  by (simp add: divine_weight_def divine_table_def tier_simps)

text \<open>
  The Immortal block has no upper range: its power may overflow, which raises, and short
  of that the product with 300 may overflow, which gives \<^verbatim>\<open>inf\<close>.
\<close>

lemma immortal_weight_eq:
  "immortal_weight L =
     (if 1.1 powr (L - 20) > float_max then Inl OverflowError
      else Inr (if 300 * 1.1 powr (L - 20) > float_max then PyF PosInf
                else PyFloat (immortal_table L)))"
proof -
  let ?p = "1.1 powr (L - 20) :: real"
  have p0: "0 \<le> ?p" by simp
  have 1: "py_max0 (py_sub (py_mul (PyFloat 300) (PyFloat ?p)) (PyFloat 500)) = Inr (PyF PosInf)"
    if "float_max < 300 * ?p"
    using that one_le_float_max by (simp add: to_range_def fsub_def)
  have 2: "py_max0 (py_sub (py_mul (PyFloat 300) (PyFloat ?p)) (PyFloat 500)) =
      Inr (PyFloat (immortal_table L))"
    if "300 * ?p \<le> float_max"
  proof -
    have "to_range (300 * ?p) = Finite (300 * ?p)"
      using that p0 by (intro to_range_Finite) simp
    moreover have "to_range (300 * ?p - 500) = Finite (300 * ?p - 500)"
    proof (rule to_range_Finite)
      have "500 \<le> float_max" by (simp add: float_max_def)
      moreover have "0 \<le> 300 * ?p" by simp
      ultimately show "\<bar>300 * ?p - 500\<bar> \<le> float_max" using that by linarith
    qed
    ultimately show ?thesis
      by (simp add: fsub_def immortal_table_def max_def)
  qed
  show ?thesis using 1 2
    by (simp add: immortal_weight_def bind_exn_def float_pow_pos del: py_mul.simps py_sub.simps py_max0.simps)
qed

lemmas weight_eqs = garbage_weight_eq common_weight_eq uncommon_weight_eq rare_weight_eq
  epic_weight_eq legendary_weight_eq mythic_weight_eq godly_weight_eq divine_weight_eq
  immortal_weight_eq

lemma rarity_weights_body_eq:
  "rarity_weights_body L =
     (if 1.1 powr (L - 20) > float_max then Inl OverflowError
      else if 300 * 1.1 powr (L - 20) > float_max then
        Inr (AList.update ''Immortal'' (PyF PosInf) (float_dict (spec_table L)))
      else Inr (float_dict (spec_table L)))"
  by (simp add: rarity_weights_body_def assign_def weight_eqs bind_exn_def
        float_dict_def spec_table_def)

lemma zero_weights_eq:
  "zero_weights = float_dict (map (\<lambda>t. (t, 0)) rarities)"
  by (simp add: zero_weights_def rarities_def float_dict_def)

lemma calculate_rarity_weights_eq:
  "calculate_rarity_weights L =
     Inr (if 1.1 powr (L - 20) > float_max then zero_weights
          else if 300 * 1.1 powr (L - 20) > float_max then
            AList.update ''Immortal'' (PyF PosInf) (float_dict (spec_table L))
          else float_dict (spec_table L))"
  by (simp add: calculate_rarity_weights_def rarity_weights_body_eq try_except_def)

lemma powr_root_le_float_max:
  assumes "0 \<le> x" "x \<le> float_max" "0 \<le> e" "e \<le> 1"
  shows "x powr e \<le> float_max"
proof (cases "x \<le> 1")
  case True
  then have "x powr e \<le> 1" using assms by (intro powr_le1) auto
  then show ?thesis using one_le_float_max by simp
next
  case False
  then have "x powr e \<le> x powr 1" using assms by (intro powr_mono) auto
  then show ?thesis using assms False by simp
qed

lemma powr_neg_numeral: "0 < (x::real) \<Longrightarrow> x powr (- numeral n) = 1 / x ^ numeral n"
  using powr_minus_divide[of x "numeral n"] by simp

text \<open>Where the power of the Immortal block leaves the range of a double.\<close>

lemma immortal_overflow: "float_max < 1.1 powr (10000 - 20)"
proof -
  have "float_max < (2::real) ^ 1024" by (simp add: float_max_def)
  also have "\<dots> \<le> (1.1 ^ 8) ^ 1024" by (intro power_mono) (simp_all add: power_divide)
  also have "\<dots> = 1.1 ^ 8192" by (simp flip: power_mult)
  also have "\<dots> \<le> 1.1 ^ 9980" by (intro power_increasing) simp_all
  also have "\<dots> = 1.1 powr 9980" by simp
  finally show ?thesis by simp
qed

lemma immortal_no_overflow:
  assumes "L \<le> 7000" shows "300 * 1.1 powr (L - 20) \<le> float_max"
proof -
  have "(1.1::real) powr (L - 20) \<le> 1.1 powr 6986" using assms by (intro powr_mono) auto
  also have "\<dots> = (1.1 ^ 7) ^ 998" by (simp flip: power_mult)
  also have "\<dots> \<le> 2 ^ 998" by (intro power_mono) (simp_all add: power_divide)
  finally have "300 * 1.1 powr (L - 20) \<le> 2 ^ 9 * (2::real) ^ 998" by simp
  also have "\<dots> = 2 ^ 1007" by (simp flip: power_add)
  also have "\<dots> \<le> float_max" by (simp add: float_max_def)
  finally show ?thesis .
qed

lemma product_bounds_power:
  assumes "300 * 1.1 powr (L - 20) \<le> float_max" shows "1.1 powr (L - 20) \<le> float_max"
proof -
  have "0 \<le> (1.1::real) powr (L - 20)" by simp
  then have "(1.1::real) powr (L - 20) \<le> 300 * 1.1 powr (L - 20)" by linarith
  with assms show ?thesis by linarith
qed

lemmas table_defs = garbage_table_def common_table_def uncommon_table_def rare_table_def
  epic_table_def legendary_table_def mythic_table_def godly_table_def divine_table_def
  immortal_table_def

subsection \<open>Normalising a dict of floats\<close>

lemma py_sum_floats_aux:
  "(\<And>n. n \<le> length xs \<Longrightarrow> \<bar>a + sum_list (take n xs)\<bar> \<le> float_max) \<Longrightarrow>
   foldl py_add (PyFloat a) (map PyFloat xs) = PyFloat (a + sum_list xs)"
proof (induction xs arbitrary: a)
  case Nil then show ?case by simp
next
  case (Cons x xs)
  have "\<bar>a + x\<bar> \<le> float_max" using Cons.prems[of 1] by simp
  then have 1: "py_add (PyFloat a) (PyFloat x) = PyFloat (a + x)"
    by (simp add: to_range_Finite)
  have "\<bar>(a + x) + sum_list (take n xs)\<bar> \<le> float_max" if "n \<le> length xs" for n
    using Cons.prems[of "Suc n"] that by (simp add: add.assoc)
  then have "foldl py_add (PyFloat (a + x)) (map PyFloat xs) = PyFloat ((a + x) + sum_list xs)"
    by (rule Cons.IH)
  then show ?case by (simp only: list.map foldl_Cons 1) (simp add: add.assoc)
qed

lemma snd_float_dict: "map snd (float_dict kvs) = map PyFloat (map snd kvs)"
  by (simp add: float_dict_def case_prod_unfold)

lemma fst_float_dict: "map fst (float_dict kvs) = map fst kvs"
  by (simp add: float_dict_def case_prod_unfold)

lemma py_sum_float_dict:
  assumes "\<And>n. n \<le> length kvs \<Longrightarrow> is_float (sum_list (map snd (take n kvs)))"
  shows "py_sum (map snd (float_dict kvs)) = PyFloat (sum_list (map snd kvs))"
proof -
  have "\<bar>0 + sum_list (take n (map snd kvs))\<bar> \<le> float_max" if "n \<le> length (map snd kvs)" for n
    using assms[of n] that by (simp add: is_float_def take_map)
  then have "foldl py_add (PyFloat 0) (map PyFloat (map snd kvs)) =
      PyFloat (0 + sum_list (map snd kvs))"
    by (rule py_sum_floats_aux)
  then show ?thesis by (simp only: py_sum_def snd_float_dict) simp
qed

lemma update_fresh: "k \<notin> fst ` set ps \<Longrightarrow> AList.update k v ps = ps @ [(k, v)]"
  by (induction ps) auto

lemma fold_update_const:
  "distinct (map fst acc @ ks) \<Longrightarrow>
   fold (\<lambda>k ws. AList.update k v ws) ks acc = acc @ map (\<lambda>k. (k, v)) ks"
proof (induction ks arbitrary: acc)
  case Nil then show ?case by simp
next
  case (Cons k ks)
  have "k \<notin> fst ` set acc" using Cons.prems by auto
  then have "AList.update k v acc = acc @ [(k, v)]" by (rule update_fresh)
  moreover have "distinct (map fst (acc @ [(k, v)]) @ ks)" using Cons.prems by auto
  ultimately show ?case using Cons.IH[of "acc @ [(k, v)]"] by simp
qed

lemma abs_le_times_100: "\<bar>x::real\<bar> \<le> \<bar>x * 100\<bar>"
proof -
  have "\<bar>x * 100\<bar> = \<bar>x\<bar> * 100" by (simp add: abs_mult)
  moreover have "0 \<le> \<bar>x\<bar>" by simp
  ultimately show ?thesis by linarith
qed

lemma unit_times_100: "0 \<le> x \<Longrightarrow> x \<le> 1 \<Longrightarrow> \<bar>x * 100\<bar> \<le> (100::real)"
  by linarith

lemma chance_value:
  assumes "T \<noteq> 0" "is_float (w / T * 100)"
  shows "bind_exn (py_truediv (PyFloat w) (PyFloat T)) (\<lambda>q. f (py_mul q (PyFloat 100))) =
           f (PyFloat (w / T * 100))"
proof -
  have "\<bar>w / T\<bar> \<le> float_max"
    by (rule order_trans[OF abs_le_times_100 assms(2)[unfolded is_float_def]])
  then have "to_range (w / T) = Finite (w / T)" by (rule to_range_Finite)
  moreover have "to_range (w / T * 100) = Finite (w / T * 100)"
    using assms(2) by (intro to_range_Finite) (simp add: is_float_def)
  ultimately show ?thesis using assms(1) by (simp add: bind_exn_def)
qed

lemma chances_loop_floats:
  "T \<noteq> 0 \<Longrightarrow> (\<And>w. w \<in> set (map snd kvs) \<Longrightarrow> is_float (w / T * 100)) \<Longrightarrow>
   distinct (map fst acc @ map fst kvs) \<Longrightarrow>
   chances_loop (PyFloat T) (float_dict kvs) acc =
     Inr (acc @ float_dict (map (\<lambda>(k, w). (k, w / T * 100)) kvs))"
proof (induction kvs arbitrary: acc)
  case Nil then show ?case by (simp add: float_dict_def)
next
  case (Cons kv kvs)
  obtain k w where kv: "kv = (k, w)" by (cases kv)
  have "k \<notin> fst ` set acc" using Cons.prems kv by auto
  then have u: "AList.update k (PyFloat (w / T * 100)) acc = acc @ [(k, PyFloat (w / T * 100))]"
    by (rule update_fresh)
  have d: "distinct (map fst (acc @ [(k, PyFloat (w / T * 100))]) @ map fst kvs)"
    using Cons.prems kv by auto
  have fl: "is_float (w / T * 100)" using Cons.prems(2)[of w] kv by simp
  have rest: "\<And>w. w \<in> set (map snd kvs) \<Longrightarrow> is_float (w / T * 100)"
    using Cons.prems(2) by simp
  have "chances_loop (PyFloat T) (float_dict (kv # kvs)) acc =
      chances_loop (PyFloat T) (float_dict kvs) (AList.update k (PyFloat (w / T * 100)) acc)"
    unfolding kv float_dict_def list.map prod.case chances_loop.simps
    by (rule chance_value[OF Cons.prems(1) fl])
  also have "\<dots> = Inr ((acc @ [(k, PyFloat (w / T * 100))]) @
      float_dict (map (\<lambda>(k, w). (k, w / T * 100)) kvs))"
    unfolding u by (rule Cons.IH[OF Cons.prems(1) rest d])
  finally show ?case by (simp add: kv float_dict_def)
qed

lemma calculate_rarity_chances_floats:
  assumes "distinct (map fst kvs)"
    and "\<And>n. n \<le> length kvs \<Longrightarrow> is_float (sum_list (map snd (take n kvs)))"
    and "\<And>w. w \<in> set (map snd kvs) \<Longrightarrow> is_float (w / sum_list (map snd kvs) * 100)"
  shows "calculate_rarity_chances (float_dict kvs) = Inr (float_dict (normalised kvs))"
proof (cases "sum_list (map snd kvs) = 0")
  case True
  have "fold (\<lambda>k ws. AList.update k (PyFloat 0) ws) (map fst kvs) [] =
          [] @ map (\<lambda>k. (k, PyFloat 0)) (map fst kvs)"
    using assms(1) by (intro fold_update_const) simp
  also have "\<dots> = float_dict (normalised kvs)"
    using True by (simp add: normalised_def float_dict_def case_prod_unfold comp_def)
  finally show ?thesis using True
    by (simp only: calculate_rarity_chances_def py_sum_float_dict[OF assms(2)] fst_float_dict
          Let_def py_is_zero.simps) simp
next
  case False
  have "chances_loop (PyFloat (sum_list (map snd kvs))) (float_dict kvs) [] =
          Inr ([] @ float_dict (map (\<lambda>(k, w). (k, w / sum_list (map snd kvs) * 100)) kvs))"
    using False assms(3) assms(1) by (intro chances_loop_floats) simp_all
  then have "chances_loop (PyFloat (sum_list (map snd kvs))) (float_dict kvs) [] =
          Inr (float_dict (normalised kvs))"
    using False by (simp add: normalised_def Let_def)
  then show ?thesis using False
    by (simp only: calculate_rarity_chances_def py_sum_float_dict[OF assms(2)] Let_def
          py_is_zero.simps) simp
qed

lemma sum_normalised:
  "sum_list (map snd (normalised kvs)) = (if sum_list (map snd kvs) = 0 then 0 else 100)"
proof -
  let ?T = "sum_list (map snd kvs)"
  have "sum_list (map (\<lambda>kv. snd kv * (100 / ?T)) kvs) = ?T * (100 / ?T)"
    using sum_list_mult_const[of snd "100 / ?T" kvs] by simp
  then show ?thesis
    by (simp add: normalised_def Let_def comp_def case_prod_unfold)
qed

text \<open>Weights that are not negative, with a total in range, meet the conditions.\<close>

lemma sum_list_take_le:
  assumes "\<And>w. w \<in> set vs \<Longrightarrow> 0 \<le> (w::real)"
  shows "0 \<le> sum_list (take n vs) \<and> sum_list (take n vs) \<le> sum_list vs"
proof -
  have "sum_list vs = sum_list (take n vs) + sum_list (drop n vs)"
    by (metis append_take_drop_id sum_list_append)
  moreover have "0 \<le> sum_list (drop n vs)"
    using assms by (intro sum_list_nonneg) (auto dest: in_set_dropD)
  moreover have "0 \<le> sum_list (take n vs)"
    using assms by (intro sum_list_nonneg) (auto dest: in_set_takeD)
  ultimately show ?thesis by simp
qed

lemma calculate_rarity_chances_nonneg:
  assumes "distinct (map fst kvs)" and "\<And>w. w \<in> set (map snd kvs) \<Longrightarrow> 0 \<le> w"
    and "sum_list (map snd kvs) \<le> float_max"
  shows "calculate_rarity_chances (float_dict kvs) = Inr (float_dict (normalised kvs))"
proof (rule calculate_rarity_chances_floats[OF assms(1)])
  fix n
  show "is_float (sum_list (map snd (take n kvs)))"
    using sum_list_take_le[of "map snd kvs" n] assms(2,3)
    by (simp add: is_float_def take_map)
next
  fix w assume w: "w \<in> set (map snd kvs)"
  let ?T = "sum_list (map snd kvs)"
  have "w \<le> ?T" using w assms(2) by (intro member_le_sum_list) auto
  moreover have "0 \<le> w" using w assms(2) by simp
  ultimately have "0 \<le> w / ?T" "w / ?T \<le> 1"
    by (cases "?T = 0"; auto simp: divide_le_eq_1)+
  then have "\<bar>w / ?T * 100\<bar> \<le> 100" by (rule unit_times_100)
  moreover have "100 \<le> float_max" by (simp add: float_max_def)
  ultimately show "is_float (w / ?T * 100)" unfolding is_float_def by (rule order_trans)
qed

subsection \<open>The weight stored under one tier\<close>

lemma zero_weights_list:
  "zero_weights =
     [(''Garbage'', PyFloat 0), (''Common'', PyFloat 0), (''Uncommon'', PyFloat 0),
      (''Rare'', PyFloat 0), (''Epic'', PyFloat 0), (''Legendary'', PyFloat 0),
      (''Mythic'', PyFloat 0), (''Godly'', PyFloat 0), (''Divine'', PyFloat 0),
      (''Immortal'', PyFloat 0)]"
  by (simp add: zero_weights_def rarities_def)

lemma weight_of_eq:
  "weight_of t L =
     map_of (if 1.1 powr (L - 20) > float_max then zero_weights
             else if 300 * 1.1 powr (L - 20) > float_max then
               AList.update ''Immortal'' (PyF PosInf) (float_dict (spec_table L))
             else float_dict (spec_table L)) t"
  by (simp add: weight_of_def calculate_rarity_weights_eq)

lemmas weight_of_simps = weight_of_eq zero_weights_list float_dict_def spec_table_def

lemma table_zero_from_70:
  "70 \<le> L \<Longrightarrow> garbage_table L = 0" "70 \<le> L \<Longrightarrow> common_table L = 0"
  "70 \<le> L \<Longrightarrow> uncommon_table L = 0" "70 \<le> L \<Longrightarrow> rare_table L = 0"
  "70 \<le> L \<Longrightarrow> epic_table L = 0" "70 \<le> L \<Longrightarrow> legendary_table L = 0"
  "70 \<le> L \<Longrightarrow> mythic_table L = 0" "70 \<le> L \<Longrightarrow> godly_table L = 0"
  "70 \<le> L \<Longrightarrow> divine_table L = 0"
  by (simp_all add: table_defs)

lemma overflow_from_70: "float_max < 300 * 1.1 powr (L - 20) \<Longrightarrow> 70 \<le> L"
  using immortal_no_overflow[of L] by (cases "L \<le> 7000") auto

lemma power_overflow_from_70: "float_max < 1.1 powr (L - 20) \<Longrightarrow> 70 \<le> L"
  using product_bounds_power[of L] overflow_from_70[of L]
  by (cases "300 * 1.1 powr (L - 20) \<le> float_max") auto

lemma tier_weight_eqs:
  "tier_weight ''Garbage'' L = garbage_table L"
  "tier_weight ''Common'' L = common_table L"
  "tier_weight ''Uncommon'' L = uncommon_table L"
  "tier_weight ''Rare'' L = rare_table L"
  "tier_weight ''Epic'' L = epic_table L"
  "tier_weight ''Legendary'' L = legendary_table L"
  "tier_weight ''Mythic'' L = mythic_table L"
  "tier_weight ''Godly'' L = godly_table L"
  "tier_weight ''Divine'' L = divine_table L"
  using power_overflow_from_70[of L]
  by (auto simp: tier_weight_def weight_of_simps table_zero_from_70)

lemma weight_of_immortal:
  "weight_of ''Immortal'' L =
     Some (if 1.1 powr (L - 20) > float_max then PyFloat 0
           else if 300 * 1.1 powr (L - 20) > float_max then PyF PosInf
           else PyFloat (immortal_table L))"
  by (simp add: weight_of_simps)

lemma weight_of_float:
  "t \<in> set rarities \<Longrightarrow> t \<noteq> ''Immortal'' \<Longrightarrow>
     weight_of t L = Some (PyFloat (tier_weight t L))"
  by (auto simp: tier_weight_def weight_of_simps rarities_def)

subsection \<open>The table's weights are not negative\<close>

lemma rise_ge_one: "1 \<le> b \<Longrightarrow> 0 \<le> e \<Longrightarrow> 1 \<le> (b::real) powr e"
  by (rule ge_one_powr_ge_zero)

lemma garbage_table_nonneg: "0 \<le> garbage_table L" by (simp add: garbage_table_def)
lemma common_table_nonneg: "0 \<le> common_table L" by (simp add: common_table_def)
lemma uncommon_table_nonneg: "0 \<le> uncommon_table L"
proof -
  have "1 \<le> L \<Longrightarrow> 0 \<le> 20 * 1.5 powr (L - 1) - 12"
    using rise_ge_one[of "1.5" "L - 1"] by simp
  then show ?thesis by (simp add: uncommon_table_def)
qed
lemma rare_table_nonneg: "0 \<le> rare_table L"
proof -
  have "1 \<le> L \<Longrightarrow> 0 \<le> 30 * 1.45 powr (L - 1) - 28"
    using rise_ge_one[of "1.45" "L - 1"] by simp
  then show ?thesis by (simp add: rare_table_def)
qed
lemma epic_table_nonneg: "0 \<le> epic_table L" by (simp add: epic_table_def)
lemma legendary_table_nonneg: "0 \<le> legendary_table L" by (simp add: legendary_table_def)
lemma mythic_table_nonneg: "0 \<le> mythic_table L" by (simp add: mythic_table_def)
lemma godly_table_nonneg: "0 \<le> godly_table L" by (simp add: godly_table_def)
lemma divine_table_nonneg: "0 \<le> divine_table L" by (simp add: divine_table_def)
lemma immortal_table_nonneg: "0 \<le> immortal_table L" by (simp add: immortal_table_def)

lemmas table_nonneg = garbage_table_nonneg common_table_nonneg uncommon_table_nonneg
  rare_table_nonneg epic_table_nonneg legendary_table_nonneg mythic_table_nonneg
  godly_table_nonneg divine_table_nonneg immortal_table_nonneg

lemma weight_of_nonneg:
  assumes "t \<in> set rarities"
  shows "\<exists>v. weight_of t L = Some v \<and> py_nonneg v \<and>
     (v = PyF PosInf \<longrightarrow> t = ''Immortal'' \<and> float_max < 300 * 1.1 powr (L - 20))"
proof (cases "t = ''Immortal''")
  case True
  then show ?thesis by (simp add: weight_of_immortal immortal_table_nonneg)
next
  case False
  have "0 \<le> tier_weight t L"
    using assms False by (auto simp: rarities_def tier_weight_eqs table_nonneg)
  then show ?thesis using weight_of_float[OF assms False, of L] by simp
qed

lemma keys_calculate_rarity_weights:
  "\<exists>ws. calculate_rarity_weights L = Inr ws \<and> map fst ws = rarities"
  by (simp add: calculate_rarity_weights_eq zero_weights_list float_dict_def spec_table_def
        rarities_def)

subsection \<open>Some tier has a positive weight\<close>

lemma rare_table_pos: assumes "1 \<le> L" "L < 12" shows "0 < rare_table L"
proof -
  have "1 \<le> 1.45 powr (L - 1)" using assms by (intro rise_ge_one) auto
  then have "0 < 30 * 1.45 powr (L - 1) - 28" by simp
  then show ?thesis using assms by (simp add: rare_table_def)
qed

lemma legendary_table_pos: assumes "12 \<le> L" "L < 30" shows "0 < legendary_table L"
proof -
  have "(1.36::real) powr 9 \<le> 1.36 powr (L - 3)" using assms by (intro powr_mono) auto
  moreover have "(2::real) \<le> 1.36 powr 9" by (simp add: power_divide)
  ultimately have "0 < 80 * 1.36 powr (L - 3) - 100" by simp
  then show ?thesis using assms by (simp add: legendary_table_def)
qed

lemma immortal_table_pos: assumes "30 \<le> L" shows "0 < immortal_table L"
proof -
  have "(1.1::real) powr 10 \<le> 1.1 powr (L - 20)" using assms by (intro powr_mono) auto
  moreover have "(2::real) \<le> 1.1 powr 10" by (simp add: power_divide)
  ultimately have "0 < 300 * 1.1 powr (L - 20) - 500" by simp
  then show ?thesis by (simp add: immortal_table_def)
qed

lemma spec_table_total_pos:
  assumes "1 \<le> L" shows "0 < sum_list (map snd (spec_table L))"
proof -
  consider "L < 12" | "12 \<le> L" "L < 30" | "30 \<le> L" by linarith
  then have "0 < rare_table L \<or> 0 < legendary_table L \<or> 0 < immortal_table L"
    using assms rare_table_pos legendary_table_pos immortal_table_pos by cases auto
  then show ?thesis
    using garbage_table_nonneg[of L] common_table_nonneg[of L] uncommon_table_nonneg[of L]
      rare_table_nonneg[of L] epic_table_nonneg[of L] legendary_table_nonneg[of L]
      mythic_table_nonneg[of L] godly_table_nonneg[of L] divine_table_nonneg[of L]
      immortal_table_nonneg[of L]
    by (simp add: spec_table_def) linarith
qed

lemma spec_table_some_pos:
  assumes "1 \<le> L" shows "\<exists>w \<in> set (map snd (spec_table L)). 0 < w"
proof -
  consider "L < 12" | "12 \<le> L" "L < 30" | "30 \<le> L" by linarith
  then have "0 < rare_table L \<or> 0 < legendary_table L \<or> 0 < immortal_table L"
    using assms rare_table_pos legendary_table_pos immortal_table_pos by cases auto
  then show ?thesis by (auto simp: spec_table_def)
qed

lemma distinct_spec_table: "distinct (map fst (spec_table L))"
  by (simp add: spec_table_def)

lemma spec_table_nonneg: "w \<in> set (map snd (spec_table L)) \<Longrightarrow> 0 \<le> w"
  by (auto simp: spec_table_def table_nonneg)

subsection \<open>The weights are far inside the range of a double\<close>

lemma garbage_table_bound: "\<bar>garbage_table L\<bar> \<le> 2 ^ 80"
proof -
  have c: "\<bar>5::real\<bar> \<le> 2 ^ 80" by simp
  have r: "\<bar>5 * 0.8 powr (L - 1)\<bar> \<le> 2 ^ 80" if "1 \<le> L"
    using c that by (intro decay_value(2)) auto
  have d: "\<bar>5 * 0.8 powr (L - 1) * 0.4 powr (L - 2)\<bar> \<le> 2 ^ 80" if "2 \<le> L"
    using r that by (intro decay_value(2)) auto
  show ?thesis using r d by (simp add: garbage_table_def)
qed

lemma common_table_bound: "\<bar>common_table L\<bar> \<le> 2 ^ 80"
proof -
  have c: "\<bar>15::real\<bar> \<le> 2 ^ 80" by simp
  have d: "\<bar>15 * 0.45 powr (L - 2)\<bar> \<le> 2 ^ 80" if "2 \<le> L"
    using c that by (intro decay_value(2)) auto
  show ?thesis using d by (simp add: common_table_def)
qed

lemma uncommon_table_bound: "\<bar>uncommon_table L\<bar> \<le> 2 ^ 80"
proof -
  have r: "\<bar>20 * 1.5 powr (L - 1) - 12\<bar> \<le> 2 ^ 80" if "L < 8"
    using that by (intro base_value(2)) auto
  have d: "\<bar>(20 * 1.5 powr (L - 1) - 12) * 0.5 powr (L - 3)\<bar> \<le> 2 ^ 80" if "3 \<le> L" "L < 8"
    using r that by (intro decay_value(2)) auto
  show ?thesis using r d by (simp add: uncommon_table_def)
qed

lemma rare_table_bound: "\<bar>rare_table L\<bar> \<le> 2 ^ 80"
proof -
  have r: "\<bar>30 * 1.45 powr (L - 1) - 28\<bar> \<le> 2 ^ 80" if "L < 12"
    using that by (intro base_value(2)) auto
  have d: "\<bar>(30 * 1.45 powr (L - 1) - 28) * 0.55 powr (L - 5)\<bar> \<le> 2 ^ 80" if "5 \<le> L" "L < 12"
    using r that by (intro decay_value(2)) auto
  show ?thesis using r d by (simp add: rare_table_def)
qed

lemma epic_table_bound: "\<bar>epic_table L\<bar> \<le> 2 ^ 80"
proof -
  have r: "\<bar>max 0 (45 * 1.4 powr (L - 2) - 50)\<bar> \<le> 2 ^ 80" if "L < 20"
    using that by (intro abs_max0 base_value(2)) auto
  have d: "\<bar>max 0 (45 * 1.4 powr (L - 2) - 50) * 0.6 powr (L - 8)\<bar> \<le> 2 ^ 80" if "8 \<le> L" "L < 20"
    using r that by (intro decay_value(2)) auto
  show ?thesis using r d by (simp add: epic_table_def)
qed

lemma legendary_table_bound: "\<bar>legendary_table L\<bar> \<le> 2 ^ 80"
proof -
  have r: "\<bar>max 0 (80 * 1.36 powr (L - 3) - 100)\<bar> \<le> 2 ^ 80" if "L < 30"
    using that by (intro abs_max0 base_value(2)) auto
  have d: "\<bar>max 0 (80 * 1.36 powr (L - 3) - 100) * 0.64 powr (L - 12)\<bar> \<le> 2 ^ 80" if "12 \<le> L" "L < 30"
    using r that by (intro decay_value(2)) auto
  show ?thesis using r d by (simp add: legendary_table_def)
qed

lemma mythic_table_bound: "\<bar>mythic_table L\<bar> \<le> 2 ^ 80"
proof -
  have r: "\<bar>max 0 (120 * 1.3 powr (L - 5) - 140)\<bar> \<le> 2 ^ 80" if "L < 50"
    using that by (intro abs_max0 base_value(2)) auto
  have d: "\<bar>max 0 (120 * 1.3 powr (L - 5) - 140) * 0.67 powr (L - 20)\<bar> \<le> 2 ^ 80" if "20 \<le> L" "L < 50"
    using r that by (intro decay_value(2)) auto
  show ?thesis using r d by (simp add: mythic_table_def)
qed

lemma godly_table_bound: "\<bar>godly_table L\<bar> \<le> 2 ^ 80"
proof -
  have r: "\<bar>max 0 (150 * 1.25 powr (L - 8) - 200)\<bar> \<le> 2 ^ 80" if "L < 60"
    using that by (intro abs_max0 base_value(2)) auto
  have d: "\<bar>max 0 (150 * 1.25 powr (L - 8) - 200) * 0.7 powr (L - 30)\<bar> \<le> 2 ^ 80" if "30 \<le> L" "L < 60"
    using r that by (intro decay_value(2)) auto
  show ?thesis using r d by (simp add: godly_table_def)
qed

lemma divine_table_bound: "\<bar>divine_table L\<bar> \<le> 2 ^ 80"
proof -
  have r: "\<bar>max 0 (200 * 1.2 powr (L - 12) - 300)\<bar> \<le> 2 ^ 80" if "L < 70"
    using that by (intro abs_max0 base_value(2)) auto
  have d: "\<bar>max 0 (200 * 1.2 powr (L - 12) - 300) * 0.92 powr (L - 40)\<bar> \<le> 2 ^ 80"
    if "40 \<le> L" "L < 70"
    using r that by (intro decay_value(2)) auto
  have d2: "\<bar>max 0 (200 * 1.2 powr (L - 12) - 300) * 0.92 powr (L - 40) *
      0.75 powr (L - 50)\<bar> \<le> 2 ^ 80" if "50 \<le> L" "L < 70"
  proof (rule decay_value(2))
    show "\<bar>max 0 (200 * 1.2 powr (L - 12) - 300) * 0.92 powr (L - 40)\<bar> \<le> 2 ^ 80"
      using that by (intro d) auto
  qed (use that in auto)
  show ?thesis using r d d2 by (simp add: divine_table_def)
qed

lemma immortal_table_bound: "L < 70 \<Longrightarrow> \<bar>immortal_table L\<bar> \<le> 2 ^ 80"
  unfolding immortal_table_def by (intro abs_max0 base_value(2)) auto

lemma immortal_table_le: "immortal_table L \<le> 300 * 1.1 powr (L - 20)"
  by (simp add: immortal_table_def)

lemma spec_table_total_le:
  assumes "300 * 1.1 powr (L - 20) \<le> float_max"
  shows "sum_list (map snd (spec_table L)) \<le> float_max"
proof (cases "L < 70")
  case True
  have "sum_list (map snd (spec_table L)) \<le> 10 * 2 ^ 80"
    using garbage_table_bound[of L, THEN abs_le_D1] common_table_bound[of L, THEN abs_le_D1]
      uncommon_table_bound[of L, THEN abs_le_D1] rare_table_bound[of L, THEN abs_le_D1]
      epic_table_bound[of L, THEN abs_le_D1] legendary_table_bound[of L, THEN abs_le_D1]
      mythic_table_bound[of L, THEN abs_le_D1] godly_table_bound[of L, THEN abs_le_D1]
      divine_table_bound[of L, THEN abs_le_D1] immortal_table_bound[OF True, THEN abs_le_D1]
    by (simp add: spec_table_def)
  also have "\<dots> \<le> float_max" by (simp add: float_max_def)
  finally show ?thesis .
next
  case False
  then have "sum_list (map snd (spec_table L)) = immortal_table L"
    by (simp add: spec_table_def table_zero_from_70)
  then show ?thesis using immortal_table_le[of L] assms by simp
qed

lemma calculate_rarity_chances_table:
  assumes "300 * 1.1 powr (L - 20) \<le> float_max"
  shows "calculate_rarity_chances (float_dict (spec_table L)) =
           Inr (float_dict (normalised (spec_table L)))"
  using distinct_spec_table spec_table_nonneg spec_table_total_le[OF assms]
  by (rule calculate_rarity_chances_nonneg)

text \<open>When the body of the \<^verbatim>\<open>try\<close> returns finite floats, they are the table's.\<close>

lemma finite_body_table:
  assumes "rarity_weights_body L = Inr ws" and "\<And>v. v \<in> set (map snd ws) \<Longrightarrow> is_finite_float v"
  shows "ws = float_dict (spec_table L) \<and> 300 * 1.1 powr (L - 20) \<le> float_max"
proof (cases "300 * 1.1 powr (L - 20) \<le> float_max")
  case True
  then show ?thesis
    using assms(1) product_bounds_power[OF True] by (simp add: rarity_weights_body_eq)
next
  case False
  then have "1.1 powr (L - 20) \<le> float_max \<Longrightarrow>
      ws = AList.update ''Immortal'' (PyF PosInf) (float_dict (spec_table L))"
    using assms(1) by (simp add: rarity_weights_body_eq)
  moreover have "\<not> float_max < 1.1 powr (L - 20)"
    using assms(1) by (auto simp: rarity_weights_body_eq)
  ultimately have "PyF PosInf \<in> set (map snd ws)"
    by (simp add: float_dict_def spec_table_def)
  then show ?thesis using assms(2) by fastforce
qed

subsection \<open>Score and sale price in closed form\<close>

lemma float_pow_two:
  "float_pow l 2 = (if l\<^sup>2 > float_max then Inl OverflowError else Inr (PyFloat (l\<^sup>2)))"
proof -
  have i: "is_integral 2" by (simp add: is_integral_def)
  have "l \<noteq> 0 \<Longrightarrow> \<bar>l\<bar> powr 2 = l\<^sup>2" by simp
  then show ?thesis using i one_le_float_max
    by (cases "l = 0") (auto simp: float_pow_def Let_def)
qed

lemma float_pow_nonneg:
  "0 \<le> b \<Longrightarrow> 0 < e \<Longrightarrow> float_pow b e =
     (if b powr e > float_max then Inl OverflowError else Inr (PyFloat (b powr e)))"
  using one_le_float_max by (cases "b = 0") (auto simp: float_pow_pos float_pow_def)

lemma level_mult_eq:
  "(if l \<ge> 100 then float_pow ((l - 90) / 10) 2.5 else Inr (PyFloat 1)) =
   (if l \<ge> 100 \<and> ((l - 90) / 10) powr 2.5 > float_max then Inl OverflowError
    else Inr (PyFloat (if l \<ge> 100 then ((l - 90) / 10) powr 2.5 else 1)))"
  by (simp add: float_pow_pos)

lemmas keep_operators = py_mul.simps py_add.simps py_sub.simps py_truediv.simps py_pow.simps

lemma calculate_zodiac_score_eq:
  assumes "zodiac_rarity c = Some r" "zodiac_quality c = Some q" "zodiac_level c = Some l"
  shows "calculate_zodiac_score c =
     Inr (if score_overflows r l then None else Some (score_value r q l))"
  using assms
  by (simp add: calculate_zodiac_score_def assert_present_def bind_exn_def level_mult_eq
        float_pow_two float_pow_pos try_except_def score_value_def score_overflows_def Let_def
        del: keep_operators)

lemma calculate_zodiac_sale_price_eq:
  assumes "zodiac_rarity c = Some r" "zodiac_quality c = Some q" "zodiac_level c = Some l"
  shows "calculate_zodiac_sale_price c =
     (if score_overflows r l then Inr None
      else try_except
        (bind_exn (py_truediv (score_value r q l) (PyFloat 10)) (\<lambda>base_calc.
         bind_exn (py_pow base_calc (PyFloat 0.75)) (\<lambda>pb.
         bind_exn (float_pow 1.1 r) (\<lambda>p11. Inr (Some (py_mul pb p11)))))) None)"
  using assms
  by (simp add: calculate_zodiac_sale_price_def assert_present_def bind_exn_def level_mult_eq
        float_pow_two float_pow_pos try_except_def score_value_def score_overflows_def Let_def
        del: keep_operators)

text \<open>A product that is finite has finite factors, and then it is exact.\<close>

lemma fmul_Finite:
  assumes "fmul a b = Finite z"
  shows "\<exists>x y. a = Finite x \<and> b = Finite y \<and> z = x * y \<and> \<bar>z\<bar> \<le> float_max"
  using assms
  by (cases a; cases b) (auto simp: to_range_Finite_iff signed_inf_def sgn_if split: if_splits)

lemma score_value_finite:
  assumes "score_value r q l = PyFloat x"
  shows "x = score_formula r q l \<and> \<bar>x\<bar> \<le> float_max"
proof -
  let ?pr = "1.125 powr r :: real"
  let ?rm = "(if r > 8 then 2 else 1) :: real"
  let ?lm = "(if l \<ge> 100 then ((l - 90) / 10) powr 2.5 else 1) :: real"
  let ?m1 = "fmul (Finite ?pr) (Finite q)"
  let ?m2 = "fmul ?m1 (to_range (9 + l\<^sup>2))"
  let ?m3 = "fmul ?m2 (Finite ?rm)"
  have "fmul ?m3 (Finite ?lm) = Finite x"
    using assms by (simp add: score_value_def)
  then obtain x3 where x3: "?m3 = Finite x3" "x = x3 * ?lm" "\<bar>x\<bar> \<le> float_max"
    using fmul_Finite[of ?m3 "Finite ?lm" x] by auto
  obtain x2 where x2: "?m2 = Finite x2" "x3 = x2 * ?rm"
    using fmul_Finite[OF x3(1)] by auto
  obtain x1 y where x1: "?m1 = Finite x1" "to_range (9 + l\<^sup>2) = Finite y" "x2 = x1 * y"
    using fmul_Finite[OF x2(1)] by auto
  have "x1 = ?pr * q" using fmul_Finite[OF x1(1)] by auto
  moreover have "y = 9 + l\<^sup>2" using x1(2) by (simp add: to_range_Finite_iff)
  ultimately have "x = ?pr * q * (9 + l\<^sup>2) * ?rm * ?lm" using x1(3) x2(2) x3(2) by simp
  then show ?thesis using x3(3) by (simp add: score_formula_def)
qed

lemma cis_bounds: "\<bar>Re (cis a)\<bar> \<le> float_max" "\<bar>Im (cis a)\<bar> \<le> float_max"
  using one_le_float_max abs_cos_le_one[of a] abs_sin_le_one[of a] by (simp_all, linarith+)

subsection \<open>Continuity where two ranges meet\<close>

lemma isCont_piecewise:
  fixes f g h :: "real \<Rightarrow> real"
  assumes g: "isCont g b" and h: "isCont h b" and eq: "g b = h b" and ab: "a < b" and bc: "b < c"
    and f: "\<And>L. a < L \<Longrightarrow> L < c \<Longrightarrow> f L = (if L < b then g L else h L)"
  shows "isCont f b"
proof -
  have "continuous (at_left b) g"
    using g by (rule continuous_at_imp_continuous_at_within)
  moreover have "continuous (at_right b) h"
    using h by (rule continuous_at_imp_continuous_at_within)
  then have "(h \<longlongrightarrow> g b) (at_right b)"
    by (simp add: continuous_within eq)
  ultimately have 1: "isCont (\<lambda>x. if x \<le> b then g x else h x) b"
    by (rule isCont_If_ge)
  have "\<forall>x \<in> {a<..<c}. f x = (if x \<le> b then g x else h x)"
    using f eq by auto
  moreover have "open {a<..<c}" "b \<in> {a<..<c}" using ab bc by auto
  ultimately have "eventually (\<lambda>x. f x = (if x \<le> b then g x else h x)) (nhds b)"
    unfolding eventually_nhds by blast
  then have "isCont f b \<longleftrightarrow> isCont (\<lambda>x. if x \<le> b then g x else h x) b"
    by (rule isCont_cong)
  with 1 show ?thesis by simp
qed

lemma isCont_garbage_2: "isCont garbage_table 2"
proof (rule isCont_piecewise[where a = 1 and c = 3
      and g = "\<lambda>L. 5 * 0.8 powr (L - 1)"
      and h = "\<lambda>L. 5 * 0.8 powr (L - 1) * 0.4 powr (L - 2)"])
  show "isCont (\<lambda>L::real. 5 * 0.8 powr (L - 1)) 2"
    by (auto intro!: continuous_intros)
  show "isCont (\<lambda>L::real. 5 * 0.8 powr (L - 1) * 0.4 powr (L - 2)) 2"
    by (auto intro!: continuous_intros)
qed (simp_all add: garbage_table_def)

lemma isCont_common_2: "isCont common_table 2"
proof (rule isCont_piecewise[where a = 1 and c = 5
      and g = "\<lambda>L. 15"
      and h = "\<lambda>L. 15 * 0.45 powr (L - 2)"])
  show "isCont (\<lambda>L::real. 15) 2"
    by (auto intro!: continuous_intros)
  show "isCont (\<lambda>L::real. 15 * 0.45 powr (L - 2)) 2"
    by (auto intro!: continuous_intros)
qed (simp_all add: common_table_def)

lemma isCont_uncommon_3: "isCont uncommon_table 3"
proof (rule isCont_piecewise[where a = 1 and c = 8
      and g = "\<lambda>L. 20 * 1.5 powr (L - 1) - 12"
      and h = "\<lambda>L. (20 * 1.5 powr (L - 1) - 12) * 0.5 powr (L - 3)"])
  show "isCont (\<lambda>L::real. 20 * 1.5 powr (L - 1) - 12) 3"
    by (auto intro!: continuous_intros)
  show "isCont (\<lambda>L::real. (20 * 1.5 powr (L - 1) - 12) * 0.5 powr (L - 3)) 3"
    by (auto intro!: continuous_intros)
qed (simp_all add: uncommon_table_def)

lemma isCont_rare_5: "isCont rare_table 5"
proof (rule isCont_piecewise[where a = 1 and c = 12
      and g = "\<lambda>L. 30 * 1.45 powr (L - 1) - 28"
      and h = "\<lambda>L. (30 * 1.45 powr (L - 1) - 28) * 0.55 powr (L - 5)"])
  show "isCont (\<lambda>L::real. 30 * 1.45 powr (L - 1) - 28) 5"
    by (auto intro!: continuous_intros)
  show "isCont (\<lambda>L::real. (30 * 1.45 powr (L - 1) - 28) * 0.55 powr (L - 5)) 5"
    by (auto intro!: continuous_intros)
qed (simp_all add: rare_table_def)

lemma isCont_epic_8: "isCont epic_table 8"
proof (rule isCont_piecewise[where a = 1 and c = 20
      and g = "\<lambda>L. max 0 (45 * 1.4 powr (L - 2) - 50)"
      and h = "\<lambda>L. max 0 (45 * 1.4 powr (L - 2) - 50) * 0.6 powr (L - 8)"])
  show "isCont (\<lambda>L::real. max 0 (45 * 1.4 powr (L - 2) - 50)) 8"
    by (auto intro!: continuous_intros)
  show "isCont (\<lambda>L::real. max 0 (45 * 1.4 powr (L - 2) - 50) * 0.6 powr (L - 8)) 8"
    by (auto intro!: continuous_intros)
qed (simp_all add: epic_table_def)

lemma isCont_legendary_12: "isCont legendary_table 12"
proof (rule isCont_piecewise[where a = 1 and c = 30
      and g = "\<lambda>L. max 0 (80 * 1.36 powr (L - 3) - 100)"
      and h = "\<lambda>L. max 0 (80 * 1.36 powr (L - 3) - 100) * 0.64 powr (L - 12)"])
  show "isCont (\<lambda>L::real. max 0 (80 * 1.36 powr (L - 3) - 100)) 12"
    by (auto intro!: continuous_intros)
  show "isCont (\<lambda>L::real. max 0 (80 * 1.36 powr (L - 3) - 100) * 0.64 powr (L - 12)) 12"
    by (auto intro!: continuous_intros)
qed (simp_all add: legendary_table_def)

lemma isCont_mythic_20: "isCont mythic_table 20"
proof (rule isCont_piecewise[where a = 1 and c = 50
      and g = "\<lambda>L. max 0 (120 * 1.3 powr (L - 5) - 140)"
      and h = "\<lambda>L. max 0 (120 * 1.3 powr (L - 5) - 140) * 0.67 powr (L - 20)"])
  show "isCont (\<lambda>L::real. max 0 (120 * 1.3 powr (L - 5) - 140)) 20"
    by (auto intro!: continuous_intros)
  show "isCont (\<lambda>L::real. max 0 (120 * 1.3 powr (L - 5) - 140) * 0.67 powr (L - 20)) 20"
    by (auto intro!: continuous_intros)
qed (simp_all add: mythic_table_def)

lemma isCont_godly_30: "isCont godly_table 30"
proof (rule isCont_piecewise[where a = 1 and c = 60
      and g = "\<lambda>L. max 0 (150 * 1.25 powr (L - 8) - 200)"
      and h = "\<lambda>L. max 0 (150 * 1.25 powr (L - 8) - 200) * 0.7 powr (L - 30)"])
  show "isCont (\<lambda>L::real. max 0 (150 * 1.25 powr (L - 8) - 200)) 30"
    by (auto intro!: continuous_intros)
  show "isCont (\<lambda>L::real. max 0 (150 * 1.25 powr (L - 8) - 200) * 0.7 powr (L - 30)) 30"
    by (auto intro!: continuous_intros)
qed (simp_all add: godly_table_def)

lemma isCont_divine_40: "isCont divine_table 40"
proof (rule isCont_piecewise[where a = 1 and c = 50
      and g = "\<lambda>L. max 0 (200 * 1.2 powr (L - 12) - 300)"
      and h = "\<lambda>L. max 0 (200 * 1.2 powr (L - 12) - 300) * 0.92 powr (L - 40)"])
  show "isCont (\<lambda>L::real. max 0 (200 * 1.2 powr (L - 12) - 300)) 40"
    by (auto intro!: continuous_intros)
  show "isCont (\<lambda>L::real. max 0 (200 * 1.2 powr (L - 12) - 300) * 0.92 powr (L - 40)) 40"
    by (auto intro!: continuous_intros)
qed (simp_all add: divine_table_def)

lemma isCont_divine_50: "isCont divine_table 50"
proof (rule isCont_piecewise[where a = 40 and c = 70
      and g = "\<lambda>L. max 0 (200 * 1.2 powr (L - 12) - 300) * 0.92 powr (L - 40)"
      and h = "\<lambda>L. max 0 (200 * 1.2 powr (L - 12) - 300) * 0.92 powr (L - 40) * 0.75 powr (L - 50)"])
  show "isCont (\<lambda>L::real. max 0 (200 * 1.2 powr (L - 12) - 300) * 0.92 powr (L - 40)) 50"
    by (auto intro!: continuous_intros)
  show "isCont (\<lambda>L::real. max 0 (200 * 1.2 powr (L - 12) - 300) * 0.92 powr (L - 40) * 0.75 powr (L - 50)) 50"
    by (auto intro!: continuous_intros)
qed (simp_all add: divine_table_def)

lemma tier_weight_fun_eqs:
  "tier_weight ''Garbage'' = garbage_table" "tier_weight ''Common'' = common_table"
  "tier_weight ''Uncommon'' = uncommon_table" "tier_weight ''Rare'' = rare_table"
  "tier_weight ''Epic'' = epic_table" "tier_weight ''Legendary'' = legendary_table"
  "tier_weight ''Mythic'' = mythic_table" "tier_weight ''Godly'' = godly_table"
  "tier_weight ''Divine'' = divine_table"
  by (rule ext, simp add: tier_weight_eqs)+

subsection \<open>Decay is monotone\<close>

lemma decay_mono:
  fixes A D p q :: real
  assumes p: "1 \<le> p" and q: "0 < q" "q \<le> 1" and n: "0 < n" and r: "(p * q) ^ n \<le> q"
    and A: "real n * D \<le> A" and D: "0 \<le> D" and xy: "0 \<le> x" "x \<le> y"
  shows "(A * p powr y - D) * q powr y \<le> (A * p powr x - D) * q powr x"
proof -
  define r where "r = p * q"
  have r0: "0 < r" using p q by (simp add: r_def)
  have qr: "q \<le> r" using p q by (simp add: r_def)
  define f where "f = (\<lambda>t. A * r powr t - D * q powr t)"
  have A0: "0 \<le> A"
    using A D n by (meson mult_nonneg_nonneg of_nat_0_le_iff order_trans)
  have lnq: "ln q \<le> 0" using q by simp
  have "real n * ln r = ln (r ^ n)" using r0 by (simp add: ln_realpow)
  also have "\<dots> \<le> ln q" using r r0 q by (simp add: r_def)
  finally have lnr: "real n * ln r \<le> ln q" .
  have der: "\<exists>d. DERIV f t :> d \<and> d \<le> 0" if t: "x \<le> t" for t
  proof -
    have t0: "0 \<le> t" using t xy by simp
    have d: "DERIV f t :> A * (r powr t * ln r) - D * (q powr t * ln q)"
      unfolding f_def using r0 q
      by (auto intro!: derivative_eq_intros simp: powr_def)
    have qt: "q powr t \<le> r powr t" using qr q t0 by (intro powr_mono2) auto
    have "D * q powr t * real n \<le> A * r powr t"
    proof -
      have "D * q powr t * real n = (real n * D) * q powr t" by simp
      also have "\<dots> \<le> A * r powr t"
        using A qt A0 D by (intro mult_mono) auto
      finally show ?thesis .
    qed
    then have "(A * r powr t) * ln q \<le> (D * q powr t * real n) * ln q"
      using lnq by (rule mult_right_mono_neg)
    moreover have "(A * r powr t) * (real n * ln r) \<le> (A * r powr t) * ln q"
      using lnr A0 by (intro mult_left_mono) auto
    ultimately have "real n * (A * (r powr t * ln r)) \<le> real n * (D * (q powr t * ln q))"
      by (simp add: mult_ac)
    then have "A * (r powr t * ln r) \<le> D * (q powr t * ln q)"
      using n by simp
    then show ?thesis using d by (intro exI[of _ "A * (r powr t * ln r) - D * (q powr t * ln q)"]) simp
  qed
  have "f y \<le> f x"
    using xy(2) der by (intro DERIV_nonpos_imp_nonincreasing[of x y f]) auto
  moreover have "(A * p powr t - D) * q powr t = f t" for t
    using p q by (simp add: f_def r_def powr_mult algebra_simps)
  ultimately show ?thesis by simp
qed

lemma decay_mono_shift:
  fixes C D p q :: real
  assumes p: "1 \<le> p" and q: "0 < q" "q \<le> 1" and n: "0 < n" and r: "(p * q) ^ n \<le> q"
    and A: "real n * D \<le> C * p powr (b - s)" and D: "0 \<le> D" and L: "b \<le> L1" "L1 \<le> L2"
  shows "(C * p powr (L2 - s) - D) * q powr (L2 - b) \<le>
         (C * p powr (L1 - s) - D) * q powr (L1 - b)"
proof -
  have split: "C * p powr (L - s) = (C * p powr (b - s)) * p powr (L - b)" for L
    by (simp flip: powr_add)
  have *: "((C * p powr (b - s)) * p powr (L2 - b) - D) * q powr (L2 - b) \<le>
        ((C * p powr (b - s)) * p powr (L1 - b) - D) * q powr (L1 - b)"
    using p q n r A D L by (intro decay_mono[where n = n]) auto
  show ?thesis unfolding split[of L1] split[of L2] by (rule *)
qed

lemma decay_mono_max:
  fixes C D p q :: real
  assumes p: "1 \<le> p" and q: "0 < q" "q \<le> 1" and n: "0 < n" and r: "(p * q) ^ n \<le> q"
    and A: "real n * D \<le> C * p powr (b - s)" and D: "0 \<le> D" and C: "0 \<le> C"
    and L: "b \<le> L1" "L1 \<le> L2"
  shows "max 0 (C * p powr (L2 - s) - D) * q powr (L2 - b) \<le>
         max 0 (C * p powr (L1 - s) - D) * q powr (L1 - b)"
proof -
  have pos: "0 \<le> C * p powr (L - s) - D" if "b \<le> L" for L
  proof -
    have "D \<le> real n * D" using n D by (simp add: mult_le_cancel_right1)
    also have "\<dots> \<le> C * p powr (b - s)" by (rule A)
    also have "\<dots> \<le> C * p powr (L - s)"
      using that p C by (intro mult_left_mono powr_mono) auto
    finally show ?thesis by simp
  qed
  have "b \<le> L2" using L by simp
  then show ?thesis
    using decay_mono_shift[OF p q n r A D L] pos[of L1] pos[of L2] L by (simp add: max_def)
qed

lemma garbage_decay: assumes "2 \<le> L1" "L1 \<le> L2" shows "garbage_table L2 \<le> garbage_table L1"
proof (cases "L2 < 3")
  case True
  have "(0.8::real) powr (L2 - 1) \<le> 0.8 powr (L1 - 1)" using assms by (intro powr_mono') auto
  moreover have "(0.4::real) powr (L2 - 2) \<le> 0.4 powr (L1 - 2)" using assms by (intro powr_mono') auto
  ultimately have "5 * 0.8 powr (L2 - 1) * 0.4 powr (L2 - 2) \<le> 5 * 0.8 powr (L1 - 1) * (0.4::real) powr (L1 - 2)"
    by (intro mult_mono) auto
  then show ?thesis using True assms by (simp add: garbage_table_def)
next
  case False
  then have "garbage_table L2 = 0" by (simp add: garbage_table_def)
  then show ?thesis using garbage_table_nonneg[of L1] by simp
qed

lemma common_decay: assumes "2 \<le> L1" "L1 \<le> L2" shows "common_table L2 \<le> common_table L1"
proof (cases "L2 < 5")
  case True
  have "(0.45::real) powr (L2 - 2) \<le> 0.45 powr (L1 - 2)" using assms by (intro powr_mono') auto
  then show ?thesis using True assms by (simp add: common_table_def)
next
  case False
  then have "common_table L2 = 0" by (simp add: common_table_def)
  then show ?thesis using common_table_nonneg[of L1] by simp
qed

lemma uncommon_decay:
  assumes "3 \<le> L1" "L1 \<le> L2" shows "uncommon_table L2 \<le> uncommon_table L1"
proof (cases "L2 < 8")
  case True
  have "(20 * 1.5 powr (L2 - 1) - 12) * 0.5 powr (L2 - 3) \<le>
        (20 * 1.5 powr (L1 - 1) - 12) * 0.5 powr (L1 - 3)"
    using assms by (intro decay_mono_shift[where n = 3]) (simp_all add: power_divide)
  then show ?thesis using True assms by (simp add: uncommon_table_def)
next
  case False
  then have "uncommon_table L2 = 0" by (simp add: uncommon_table_def)
  then show ?thesis using uncommon_table_nonneg[of L1] by simp
qed

lemma epic_decay:
  assumes "8 \<le> L1" "L1 \<le> L2" shows "epic_table L2 \<le> epic_table L1"
proof (cases "L2 < 20")
  case True
  have "max 0 (45 * 1.4 powr (L2 - 2) - 50) * 0.6 powr (L2 - 8) \<le>
        max 0 (45 * 1.4 powr (L1 - 2) - 50) * 0.6 powr (L1 - 8)"
    using assms by (intro decay_mono_max[where n = 3]) (simp_all add: power_divide)
  then show ?thesis using True assms by (simp add: epic_table_def)
next
  case False
  then have "epic_table L2 = 0" by (simp add: epic_table_def)
  then show ?thesis using epic_table_nonneg[of L1] by simp
qed

lemma rare_decay:
  assumes "5 \<le> L1" "L1 \<le> L2" shows "rare_table L2 \<le> rare_table L1"
proof (cases "L2 < 12")
  case True
  have "(30 * 1.45 powr (L2 - 1) - 28) * 0.55 powr (L2 - 5) \<le>
        (30 * 1.45 powr (L1 - 1) - 28) * 0.55 powr (L1 - 5)"
    using assms by (intro decay_mono_shift[where n = 3]) (simp_all add: power_divide)
  then show ?thesis using True assms by (simp add: rare_table_def)
next
  case False
  then have "rare_table L2 = 0" by (simp add: rare_table_def)
  then show ?thesis using rare_table_nonneg[of L1] by simp
qed

lemma legendary_decay:
  assumes "12 \<le> L1" "L1 \<le> L2" shows "legendary_table L2 \<le> legendary_table L1"
proof (cases "L2 < 30")
  case True
  have "max 0 (80 * 1.36 powr (L2 - 3) - 100) * 0.64 powr (L2 - 12) \<le>
        max 0 (80 * 1.36 powr (L1 - 3) - 100) * 0.64 powr (L1 - 12)"
    using assms by (intro decay_mono_max[where n = 4]) (simp_all add: power_divide)
  then show ?thesis using True assms by (simp add: legendary_table_def)
next
  case False
  then have "legendary_table L2 = 0" by (simp add: legendary_table_def)
  then show ?thesis using legendary_table_nonneg[of L1] by simp
qed

lemma mythic_decay:
  assumes "20 \<le> L1" "L1 \<le> L2" shows "mythic_table L2 \<le> mythic_table L1"
proof (cases "L2 < 50")
  case True
  have "max 0 (120 * 1.3 powr (L2 - 5) - 140) * 0.67 powr (L2 - 20) \<le>
        max 0 (120 * 1.3 powr (L1 - 5) - 140) * 0.67 powr (L1 - 20)"
    using assms by (intro decay_mono_max[where n = 3]) (simp_all add: power_divide)
  then show ?thesis using True assms by (simp add: mythic_table_def)
next
  case False
  then have "mythic_table L2 = 0" by (simp add: mythic_table_def)
  then show ?thesis using mythic_table_nonneg[of L1] by simp
qed

lemma godly_decay:
  assumes "30 \<le> L1" "L1 \<le> L2" shows "godly_table L2 \<le> godly_table L1"
proof (cases "L2 < 60")
  case True
  have "max 0 (150 * 1.25 powr (L2 - 8) - 200) * 0.7 powr (L2 - 30) \<le>
        max 0 (150 * 1.25 powr (L1 - 8) - 200) * 0.7 powr (L1 - 30)"
    using assms by (intro decay_mono_max[where n = 3]) (simp_all add: power_divide)
  then show ?thesis using True assms by (simp add: godly_table_def)
next
  case False
  then have "godly_table L2 = 0" by (simp add: godly_table_def)
  then show ?thesis using godly_table_nonneg[of L1] by simp
qed

lemma divine_decay:
  assumes "50 \<le> L1" "L1 \<le> L2" shows "divine_table L2 \<le> divine_table L1"
proof (cases "L2 < 70")
  case True
  have e: "0.92 powr (L - 40) * 0.75 powr (L - 50) = 0.92 powr 10 * 0.69 powr (L - 50)"
    for L :: real
  proof -
    have "(0.92::real) powr (L - 40) = 0.92 powr 10 * 0.92 powr (L - 50)"
      using powr_add[of "0.92::real" 10 "L - 50"] by simp
    moreover have "(0.92::real) powr (L - 50) * 0.75 powr (L - 50) = 0.69 powr (L - 50)"
      by (simp flip: powr_mult)
    ultimately show ?thesis by simp
  qed
  have m: "max 0 (200 * 1.2 powr (L2 - 12) - 300) * 0.69 powr (L2 - 50) \<le>
        max 0 (200 * 1.2 powr (L1 - 12) - 300) * 0.69 powr (L1 - 50)"
    using assms by (intro decay_mono_max[where n = 2]) (simp_all add: power_divide)
  have d: "divine_table L =
      0.92 powr 10 * (max 0 (200 * 1.2 powr (L - 12) - 300) * 0.69 powr (L - 50))"
    if "50 \<le> L" "L < 70" for L
    using that e[of L] by (simp add: divine_table_def mult.assoc)
  have "0.92 powr 10 * (max 0 (200 * 1.2 powr (L2 - 12) - 300) * 0.69 powr (L2 - 50)) \<le>
        0.92 powr 10 * (max 0 (200 * 1.2 powr (L1 - 12) - 300) * 0.69 powr (L1 - 50))"
    using m by (intro mult_left_mono) auto
  then show ?thesis using True assms d[of L1] d[of L2] by simp
next
  case False
  then have "divine_table L2 = 0" by (simp add: divine_table_def)
  then show ?thesis using divine_table_nonneg[of L1] by simp
qed

subsection \<open>Between the two overflows\<close>

text \<open>
  At \<open>L = 7420\<close> the power of the Immortal block is still a double and its product
  with 300 is not: the weight stored is \<^verbatim>\<open>inf\<close>.
\<close>

lemma band_power: "(1.1::real) powr (7420 - 20) \<le> float_max"
proof -
  have "(1.1::real) powr (7420 - 20) = 1.1 ^ (29 * 255 + 5)" by simp
  also have "\<dots> = (1.1 ^ 29) ^ 255 * 1.1 ^ 5" by (simp only: power_add power_mult)
  also have "\<dots> \<le> (2 ^ 4) ^ 255 * 2 ^ 1"
  proof -
    have a: "(1.1::real) ^ 29 \<le> 2 ^ 4" by (simp add: power_divide)
    have b: "(1.1::real) ^ 5 \<le> 2 ^ 1" by (simp add: power_divide)
    show ?thesis by (intro mult_mono power_mono a b zero_le_power) simp_all
  qed
  also have "\<dots> = 2 ^ (4 * 255 + 1)" by (simp only: power_add power_mult)
  also have "\<dots> \<le> float_max" by (simp add: float_max_def)
  finally show ?thesis .
qed

lemma band_product: "float_max < 300 * (1.1::real) powr (7420 - 20)"
proof -
  have "float_max < (2::real) ^ 1024" by (simp add: float_max_def)
  also have "\<dots> \<le> 300 * 2 ^ (11 * 92 + 5)" by simp
  also have "(2::real) ^ (11 * 92 + 5) = (2 ^ 11) ^ 92 * 2 ^ 5" by (simp only: power_add power_mult)
  also have "\<dots> \<le> (1.1 ^ 80) ^ 92 * 1.1 ^ 40"
  proof -
    have a: "(2::real) ^ 11 \<le> 1.1 ^ 80" by (simp add: power_divide)
    have b: "(2::real) ^ 5 \<le> 1.1 ^ 40" by (simp add: power_divide)
    show ?thesis by (intro mult_mono power_mono a b zero_le_power) simp_all
  qed
  also have "\<dots> = 1.1 ^ (80 * 92 + 40)" by (simp only: power_add power_mult)
  also have "\<dots> = 1.1 powr (7420 - 20)" by simp
  finally show ?thesis by simp
qed

lemma immortal_inf_example: "weight_of ''Immortal'' 7420 = Some (PyF PosInf)"
  using band_power band_product by (simp add: weight_of_immortal)

subsection \<open>The luck transform stays in range\<close>

lemma luck_product_le:
  assumes "0 \<le> x" "x \<le> float_max" shows "x powr 0.3 * 18 \<le> float_max"
proof (cases "x \<le> 1")
  case True
  then have "x powr 0.3 \<le> 1" using assms by (intro powr_le1) auto
  then have "x powr 0.3 * 18 \<le> 18" by simp
  also have "\<dots> \<le> float_max" by (simp add: float_max_def)
  finally show ?thesis .
next
  case False
  then have "x powr 0.3 \<le> x powr (1 / 2)" by (intro powr_mono) auto
  also have "\<dots> \<le> (2 ^ 1024) powr (1 / 2)"
    using assms by (intro powr_mono2) (auto simp: float_max_def)
  also have "\<dots> = (2 powr 1024) powr (1 / 2)" by simp
  also have "\<dots> = 2 powr 512" by (simp only: powr_powr) simp
  also have "\<dots> = 2 ^ 512" by simp
  finally have "x powr 0.3 * 18 \<le> 2 ^ 512 * 18" by simp
  also have "\<dots> \<le> float_max" by (simp add: float_max_def)
  finally show ?thesis .
qed

section \<open>The luck transform (C6)\<close>

text \<open>
  C6. For a present luck value (a float), \<^verbatim>\<open>calculate_zodiac_luck\<close> returns the luck
  itself below 18 and \<open>(luck - 18) ^ 0.3 * 18\<close> from 18 on; an absent luck gives
  \<^verbatim>\<open>None\<close>. No exception leaves the function, and neither the power nor the product
  leaves the range of a double.
\<close>

theorem calculate_zodiac_luck_spec:
  assumes "\<And>lk. luck c = Some lk \<Longrightarrow> is_float lk"
  shows "calculate_zodiac_luck c =
    Inr (case luck c of
           None \<Rightarrow> None
         | Some lk \<Rightarrow> Some (PyFloat (if lk < 18 then lk else (lk - 18) powr 0.3 * 18)))"
proof (cases "luck c")
  case None
  then show ?thesis by (simp add: calculate_zodiac_luck_def)
next
  case (Some lk)
  then have fl: "is_float lk" using assms by simp
  show ?thesis
  proof (cases "lk < 18")
    case True
    then show ?thesis using Some
      by (simp add: calculate_zodiac_luck_def assert_present_def bind_exn_def try_except_def)
  next
    case False
    have x: "0 \<le> lk - 18" "lk - 18 \<le> float_max"
      using False fl by (auto simp: is_float_def)
    have "(lk - 18) powr 0.3 \<le> float_max"
      using x by (intro powr_root_le_float_max) auto
    then have 1: "float_pow (lk - 18) 0.3 = Inr (PyFloat ((lk - 18) powr 0.3))"
      using False by (cases "lk = 18") (auto simp: float_pow_pos float_pow_def)
    have "0 \<le> (lk - 18) powr 0.3 * 18" by simp
    then have "\<bar>(lk - 18) powr 0.3 * 18\<bar> \<le> float_max"
      using luck_product_le[OF x] by simp
    then have 2: "py_mul (PyFloat ((lk - 18) powr 0.3)) (PyFloat 18) =
        PyFloat ((lk - 18) powr 0.3 * 18)"
      by (simp add: to_range_Finite)
    show ?thesis using Some False
      by (simp add: calculate_zodiac_luck_def assert_present_def bind_exn_def try_except_def
            1 2 del: py_mul.simps)
  qed
qed

text \<open>The example of the specification: luck 18 gives zodiac luck 0.\<close>

theorem calculate_zodiac_luck_spec_witness:
  "is_float 18 \<and>
   calculate_zodiac_luck
     \<lparr>zodiac_rarity = None, zodiac_quality = None, zodiac_level = None,
      luck = Some 18, immo_number = None\<rparr> = Inr (Some (PyFloat 0))"
proof -
  have h: "is_float 18" by (simp add: is_float_def float_max_def)
  show ?thesis
    using h calculate_zodiac_luck_spec [of
      "\<lparr>zodiac_rarity = None, zodiac_quality = None, zodiac_level = None,
        luck = Some 18, immo_number = None\<rparr>"]
    by simp
qed

section \<open>The weight table (C1)\<close>

text \<open>
  C1, as stated, says that for every zodiac luck the code returns the weights of the
  table. It does not where the power \<open>1.1 ** (L - 20)\<close> of the Immortal block overflows:
  the handler then returns the all-zero dict, while the table gives Immortal a positive
  weight. At \<open>L = 10000\<close>:
\<close>

theorem rarity_weights_table_counterexample:
  "calculate_rarity_weights 10000 \<noteq> Inr (float_dict (spec_table 10000)) \<and>
   weight_of ''Immortal'' 10000 = Some (PyFloat 0) \<and> 0 < immortal_table 10000"
proof -
  have "(2::real) \<le> float_max" by (simp add: float_max_def)
  then have "(2::real) \<le> 1.1 powr 9980" using immortal_overflow by simp
  then show ?thesis using immortal_overflow
    by (simp add: weight_of_def calculate_rarity_weights_eq zero_weights_eq rarities_def
          float_dict_def spec_table_def immortal_table_def)
qed

text \<open>
  C1, amended. For every zodiac luck \<open>L\<close> at which the product \<open>300 * 1.1 ^ (L - 20)\<close> of
  the Immortal block does not exceed the largest double (every \<open>L \<le> 7000\<close> does, by
  \<open>immortal_no_overflow\<close>), the code returns exactly the ten weights of the table, in
  the table's order. Beyond that the product is \<^verbatim>\<open>inf\<close> (lemma \<open>weight_of_immortal\<close>)
  until the power itself overflows and the handler returns all zeros; lemma
  \<open>immortal_inf_example\<close> shows it at \<open>L = 7420\<close>.
\<close>

theorem rarity_weights_table:
  "300 * 1.1 powr (L - 20) \<le> float_max \<Longrightarrow>
     calculate_rarity_weights L = Inr (float_dict (spec_table L))"
  using product_bounds_power[of L] by (simp add: calculate_rarity_weights_eq)

theorem rarity_weights_table_witness:
  "300 * 1.1 powr (1 - 20) \<le> float_max \<and>
   calculate_rarity_weights 1 =
     Inr [(''Garbage'', PyFloat 5), (''Common'', PyFloat 15), (''Uncommon'', PyFloat 8),
          (''Rare'', PyFloat 2), (''Epic'', PyFloat 0), (''Legendary'', PyFloat 0),
          (''Mythic'', PyFloat 0), (''Godly'', PyFloat 0), (''Divine'', PyFloat 0),
          (''Immortal'', PyFloat 0)]"
proof -
  have h: "300 * 1.1 powr (1 - 20) \<le> float_max" by (intro immortal_no_overflow) simp
  show ?thesis using h rarity_weights_table [OF h]
    by (simp add: float_dict_def spec_table_def table_defs powr_neg_numeral
          powr_minus_divide power_divide)
qed

section \<open>Weights are not negative (C7)\<close>

text \<open>
  C7. For every zodiac luck, \<^verbatim>\<open>calculate_rarity_weights\<close> returns a dict over exactly
  the ten tiers, and the value under each tier is a float that is not negative. This
  includes the rising ranges of Uncommon and Rare, which have no \<^verbatim>\<open>max(0, ...)\<close>. The
  value is a finite float except for Immortal where its product overflows, which gives
  \<^verbatim>\<open>inf\<close>.
\<close>

theorem rarity_weights_nonneg:
  "(\<exists>ws. calculate_rarity_weights L = Inr ws \<and> map fst ws = rarities) \<and>
   (\<forall>t \<in> set rarities. \<exists>v. weight_of t L = Some v \<and> py_nonneg v \<and>
      (v = PyF PosInf \<longrightarrow> t = ''Immortal'' \<and> float_max < 300 * 1.1 powr (L - 20)))"
  using keys_calculate_rarity_weights weight_of_nonneg by blast

theorem rarity_weights_nonneg_witness:
  "''Uncommon'' \<in> set rarities \<and> weight_of ''Uncommon'' 1 = Some (PyFloat 8) \<and>
   py_nonneg (PyFloat 8) \<and> PyFloat 8 \<noteq> PyF PosInf"
  using rarity_weights_nonneg [of 1]
  by (simp add: rarities_def weight_of_float tier_weight_eqs uncommon_table_def)

section \<open>Failing safe to zero (C4)\<close>

text \<open>
  C4. Whenever the body of the \<^verbatim>\<open>try\<close> raises, what it raises is \<^verbatim>\<open>OverflowError\<close>
  (no other exception can arise there), and the function returns the dict with all ten
  tiers at zero: nothing of the weights computed before the exception is returned.
\<close>

theorem rarity_weights_fail_safe:
  "rarity_weights_body L = Inl e \<Longrightarrow>
     e = OverflowError \<and>
     calculate_rarity_weights L =
       Inr [(''Garbage'', PyFloat 0), (''Common'', PyFloat 0), (''Uncommon'', PyFloat 0),
            (''Rare'', PyFloat 0), (''Epic'', PyFloat 0), (''Legendary'', PyFloat 0),
            (''Mythic'', PyFloat 0), (''Godly'', PyFloat 0), (''Divine'', PyFloat 0),
            (''Immortal'', PyFloat 0)]"
  by (auto simp: rarity_weights_body_eq calculate_rarity_weights_eq zero_weights_list
        split: if_splits)

theorem rarity_weights_fail_safe_witness:
  "rarity_weights_body 10000 = Inl OverflowError \<and>
     calculate_rarity_weights 10000 =
       Inr [(''Garbage'', PyFloat 0), (''Common'', PyFloat 0), (''Uncommon'', PyFloat 0),
            (''Rare'', PyFloat 0), (''Epic'', PyFloat 0), (''Legendary'', PyFloat 0),
            (''Mythic'', PyFloat 0), (''Godly'', PyFloat 0), (''Divine'', PyFloat 0),
            (''Immortal'', PyFloat 0)]"
proof -
  have h: "rarity_weights_body 10000 = Inl OverflowError"
    using immortal_overflow by (simp add: rarity_weights_body_eq)
  show ?thesis using h rarity_weights_fail_safe [OF h] by simp
qed

section \<open>Normalisation (C2)\<close>

text \<open>
  C2, as stated, says that the chances are \<open>weight / total * 100\<close> and sum to 100 whenever
  the total weight is positive. The code adds and divides floats: for the two finite,
  positive weights \<open>2 ^ 1023\<close> and \<open>2 ^ 1023\<close> the sum overflows to \<^verbatim>\<open>inf\<close>, every
  quotient by it is 0, and the chances returned are 0 and 0.
\<close>

theorem calculate_rarity_chances_counterexample:
  "is_float (2 ^ 1023) \<and>
   0 < sum_list (map snd [(''Common'', 2 ^ 1023 :: real), (''Rare'', 2 ^ 1023)]) \<and>
   calculate_rarity_chances [(''Common'', PyFloat (2 ^ 1023)), (''Rare'', PyFloat (2 ^ 1023))] =
     Inr [(''Common'', PyFloat 0), (''Rare'', PyFloat 0)]"
  by (simp add: is_float_def float_max_def calculate_rarity_chances_def py_sum_def
        to_range_def bind_exn_def)

text \<open>
  C2, amended. For every weight mapping (a dict of finite floats, so its keys are
  distinct) in which no running sum of the weights and no chance \<open>weight / total * 100\<close>
  leaves the range of a double, \<^verbatim>\<open>calculate_rarity_chances\<close> returns, key by key and in
  the same order, \<open>weight / total * 100\<close> when the total weight is not zero and 0 when
  it is zero. So the chances returned sum to 100 when the total is not zero, in
  particular when it is positive, and to 0 when it is zero. Weights that are not
  negative and whose total is at most the largest double meet the condition (lemma
  \<open>calculate_rarity_chances_nonneg\<close>).
\<close>

theorem calculate_rarity_chances_spec:
  assumes "distinct (map fst kvs)"
    and "\<And>n. n \<le> length kvs \<Longrightarrow> is_float (sum_list (map snd (take n kvs)))"
    and "\<And>w. w \<in> set (map snd kvs) \<Longrightarrow> is_float (w / sum_list (map snd kvs) * 100)"
  shows "calculate_rarity_chances (float_dict kvs) = Inr (float_dict (normalised kvs)) \<and>
     sum_list (map snd (normalised kvs)) = (if sum_list (map snd kvs) = 0 then 0 else 100)"
  using calculate_rarity_chances_floats[OF assms] sum_normalised by simp

theorem calculate_rarity_chances_spec_witness:
  "distinct (map fst [(''Common'', 1::real), (''Rare'', 3)]) \<and>
   is_float 0 \<and> is_float 1 \<and> is_float (1 + 3) \<and>
   is_float (1 / (1 + 3) * 100) \<and> is_float (3 / (1 + 3) * 100) \<and>
   calculate_rarity_chances [(''Common'', PyFloat 1), (''Rare'', PyFloat 3)] =
     Inr [(''Common'', PyFloat 25), (''Rare'', PyFloat 75)] \<and>
   sum_list (map snd (normalised [(''Common'', 1), (''Rare'', 3)])) = 100"
proof -
  let ?kvs = "[(''Common'', 1::real), (''Rare'', 3)]"
  have d: "distinct (map fst ?kvs)" by simp
  have s: "is_float (sum_list (map snd (take n ?kvs)))" if "n \<le> length ?kvs" for n
  proof -
    have "n = 0 \<or> n = 1 \<or> n = 2" using that by auto
    then show ?thesis by (auto simp: is_float_def float_max_def)
  qed
  have q: "is_float (w / sum_list (map snd ?kvs) * 100)" if "w \<in> set (map snd ?kvs)" for w
    using that by (auto simp: is_float_def float_max_def)
  have fl: "is_float 0" "is_float 1" "is_float (1 + 3)"
      "is_float (1 / (1 + 3) * 100)" "is_float (3 / (1 + 3) * 100)"
    by (simp_all add: is_float_def float_max_def)
  show ?thesis using d fl calculate_rarity_chances_spec [OF d s q]
    by (simp add: float_dict_def normalised_def)
qed

section \<open>The chances sum to 100 from luck 1 on (C10)\<close>

text \<open>
  C10. For every zodiac luck \<open>L \<ge> 1\<close> at which the weight computation succeeds as in exact
  real arithmetic (the body of the \<^verbatim>\<open>try\<close> returns its dict, and every weight in it is
  a finite float), that dict is what \<^verbatim>\<open>calculate_rarity_weights\<close> returns, at least
  one of its weights is strictly positive, their total is strictly positive, and
  \<^verbatim>\<open>calculate_rarity_chances\<close> on it returns chances that sum to exactly 100. (Rare is
  positive on \<open>[1, 12)\<close>, Legendary on \<open>[12, 30)\<close>, Immortal from 30 on.)
\<close>

theorem rarity_chances_sum_100:
  assumes "1 \<le> L" and "rarity_weights_body L = Inr ws"
    and "\<And>v. v \<in> set (map snd ws) \<Longrightarrow> is_finite_float v"
  shows "calculate_rarity_weights L = Inr ws \<and>
     (\<exists>kvs. ws = float_dict kvs \<and> (\<exists>w \<in> set (map snd kvs). 0 < w) \<and>
        0 < sum_list (map snd kvs) \<and>
        calculate_rarity_chances ws = Inr (float_dict (normalised kvs)) \<and>
        sum_list (map snd (normalised kvs)) = 100)"
proof -
  have ws: "ws = float_dict (spec_table L)" and r: "300 * 1.1 powr (L - 20) \<le> float_max"
    using finite_body_table[OF assms(2,3)] by simp_all
  have 1: "calculate_rarity_weights L = Inr ws"
    using assms(2) by (simp add: calculate_rarity_weights_def try_except_def)
  have pos: "0 < sum_list (map snd (spec_table L))"
    using assms(1) by (rule spec_table_total_pos)
  have 2: "calculate_rarity_chances ws = Inr (float_dict (normalised (spec_table L)))"
    unfolding ws by (rule calculate_rarity_chances_table[OF r])
  have 3: "sum_list (map snd (normalised (spec_table L))) = 100"
    using pos by (simp add: sum_normalised)
  show ?thesis using 1 ws spec_table_some_pos[OF assms(1)] pos 2 3 by blast
qed

theorem rarity_chances_sum_100_witness:
  "(1::real) \<le> 1 \<and>
   rarity_weights_body 1 =
     Inr [(''Garbage'', PyFloat 5), (''Common'', PyFloat 15), (''Uncommon'', PyFloat 8),
          (''Rare'', PyFloat 2), (''Epic'', PyFloat 0), (''Legendary'', PyFloat 0),
          (''Mythic'', PyFloat 0), (''Godly'', PyFloat 0), (''Divine'', PyFloat 0),
          (''Immortal'', PyFloat 0)] \<and>
   is_finite_float (PyFloat 5) \<and> is_finite_float (PyFloat 15) \<and>
   is_finite_float (PyFloat 8) \<and> is_finite_float (PyFloat 2) \<and>
   is_finite_float (PyFloat 0) \<and>
   (\<exists>kvs.
      [(''Garbage'', PyFloat 5), (''Common'', PyFloat 15), (''Uncommon'', PyFloat 8),
       (''Rare'', PyFloat 2), (''Epic'', PyFloat 0), (''Legendary'', PyFloat 0),
       (''Mythic'', PyFloat 0), (''Godly'', PyFloat 0), (''Divine'', PyFloat 0),
       (''Immortal'', PyFloat 0)] = float_dict kvs \<and>
      0 < sum_list (map snd kvs) \<and>
      calculate_rarity_chances (float_dict kvs) = Inr (float_dict (normalised kvs)) \<and>
      sum_list (map snd (normalised kvs)) = 100)"
proof -
  let ?W = "[(''Garbage'', PyFloat 5), (''Common'', PyFloat 15), (''Uncommon'', PyFloat 8),
          (''Rare'', PyFloat 2), (''Epic'', PyFloat 0), (''Legendary'', PyFloat 0),
          (''Mythic'', PyFloat 0), (''Godly'', PyFloat 0), (''Divine'', PyFloat 0),
          (''Immortal'', PyFloat 0)]"
  have l: "(1::real) \<le> 1" by simp
  have "300 * 1.1 powr (1 - 20) \<le> float_max" by (intro immortal_no_overflow) simp
  then have h: "rarity_weights_body 1 = Inr ?W"
    using product_bounds_power[of 1]
    by (simp add: rarity_weights_body_eq float_dict_def spec_table_def table_defs
          powr_neg_numeral powr_minus_divide power_divide)
  have f: "is_finite_float v" if "v \<in> set (map snd ?W)" for v
    using that by auto
  from rarity_chances_sum_100 [OF l h f] obtain kvs where
    k: "?W = float_dict kvs" "0 < sum_list (map snd kvs)"
       "calculate_rarity_chances ?W = Inr (float_dict (normalised kvs))"
       "sum_list (map snd (normalised kvs)) = 100"
    by blast
  from k(3) have "calculate_rarity_chances (float_dict kvs) = Inr (float_dict (normalised kvs))"
    by (simp only: k(1))
  moreover have "is_finite_float (PyFloat 5)" "is_finite_float (PyFloat 15)"
      "is_finite_float (PyFloat 8)" "is_finite_float (PyFloat 2)" "is_finite_float (PyFloat 0)"
    by simp_all
  ultimately show ?thesis using l h k(1,2,4) by blast
qed

section \<open>Sale price and score (C5)\<close>

text \<open>
  C5. When rarity \<open>r\<close>, quality \<open>q\<close> and level \<open>l\<close> are present and both
  \<^verbatim>\<open>calculate_zodiac_score\<close> and \<^verbatim>\<open>calculate_zodiac_sale_price\<close> return a value, the
  sale price is \<open>(score / 10) ** 0.75 * 1.1 ** r\<close>, evaluated with the operators of the
  code on the score returned. A score that is a finite float is the specification's
  \<open>score_formula r q l\<close>; if it is not negative, the sale price is the float of the real
  number \<open>(score / 10) ^ 0.75 * 1.1 ^ r\<close>, and every sale price that is a finite float is
  that number.
\<close>

theorem sale_price_from_score:
  assumes "zodiac_rarity c = Some r" "zodiac_quality c = Some q" "zodiac_level c = Some l"
    and "calculate_zodiac_score c = Inr (Some s)"
    and "calculate_zodiac_sale_price c = Inr (Some v)"
  shows "(\<exists>d pb p11. py_truediv s (PyFloat 10) = Inr d \<and> py_pow d (PyFloat 0.75) = Inr pb \<and>
            float_pow 1.1 r = Inr p11 \<and> v = py_mul pb p11) \<and>
     (\<forall>x. s = PyFloat x \<longrightarrow> x = score_formula r q l) \<and>
     (\<forall>x. s = PyFloat x \<and> 0 \<le> x \<longrightarrow>
          v = PyF (to_range ((x / 10) powr 0.75 * 1.1 powr r))) \<and>
     (\<forall>x p. s = PyFloat x \<and> v = PyFloat p \<longrightarrow>
          0 \<le> x \<and> p = (x / 10) powr 0.75 * 1.1 powr r)"
proof -
  have no: "\<not> score_overflows r l" and s: "s = score_value r q l"
    using assms(4) calculate_zodiac_score_eq[OF assms(1-3)] by (auto split: if_splits)
  have "try_except
        (bind_exn (py_truediv s (PyFloat 10)) (\<lambda>base_calc.
         bind_exn (py_pow base_calc (PyFloat 0.75)) (\<lambda>pb.
         bind_exn (float_pow 1.1 r) (\<lambda>p11. Inr (Some (py_mul pb p11)))))) None =
      Inr (Some v)"
    using assms(5) no calculate_zodiac_sale_price_eq[OF assms(1-3)] s by simp
  then obtain d pb p11 where p: "py_truediv s (PyFloat 10) = Inr d"
      "py_pow d (PyFloat 0.75) = Inr pb" "float_pow 1.1 r = Inr p11" "v = py_mul pb p11"
    by (auto simp: try_except_def bind_exn_def split: sum.splits py_error.splits)
  have p11: "p11 = PyFloat (1.1 powr r)"
    using p(3) by (simp add: float_pow_pos split: if_splits)
  have formula: "x = score_formula r q l" if "s = PyFloat x" for x
  proof -
    from that s have "score_value r q l = PyFloat x" by simp
    from score_value_finite[OF this] show ?thesis by blast
  qed
  have d: "d = PyFloat (x / 10)" if "s = PyFloat x" for x
  proof -
    from that s have "score_value r q l = PyFloat x" by simp
    from score_value_finite[OF this] have "\<bar>x\<bar> \<le> float_max" by blast
    then have "\<bar>x / 10\<bar> \<le> float_max" by simp
    then have "to_range (x / 10) = Finite (x / 10)" by (rule to_range_Finite)
    then show ?thesis using p(1) that by simp
  qed
  have nonneg: "v = PyF (to_range ((x / 10) powr 0.75 * 1.1 powr r))"
    if "s = PyFloat x" "0 \<le> x" for x
  proof -
    have "float_pow (x / 10) 0.75 = Inr pb" using p(2) d[OF that(1)] by simp
    then have "pb = PyFloat ((x / 10) powr 0.75)"
      using that(2) by (simp add: float_pow_nonneg split: if_splits)
    then show ?thesis using p(4) p11 by simp
  qed
  have finite: "0 \<le> x \<and> p = (x / 10) powr 0.75 * 1.1 powr r"
    if "s = PyFloat x" "v = PyFloat p" for x p
  proof (cases "0 \<le> x")
    case True
    have "to_range ((x / 10) powr 0.75 * 1.1 powr r) = Finite p"
      using nonneg[OF that(1) True] that(2) by simp
    then show ?thesis using True by (simp add: to_range_Finite_iff)
  next
    case False
    have "\<not> is_integral 0.75" by (simp add: is_integral_def)
    then have "\<exists>a b. float_pow (x / 10) 0.75 = Inr (PyC a b) \<or> float_pow (x / 10) 0.75 = Inl OverflowError"
      using False by (simp add: float_pow_def Let_def)
    moreover have "float_pow (x / 10) 0.75 = Inr pb" using p(2) d[OF that(1)] by simp
    ultimately obtain a b where "pb = PyC a b" by auto
    then have "\<exists>a b. v = PyC a b" using p(4) p11 by simp
    then show ?thesis using that(2) by auto
  qed
  show ?thesis using p formula nonneg finite by blast
qed

text \<open>The example of the specification: rarity 9, quality 10, level 50.\<close>

theorem sale_price_from_score_witness:
  "calculate_zodiac_score
     \<lparr>zodiac_rarity = Some 9, zodiac_quality = Some 10, zodiac_level = Some 50,
      luck = None, immo_number = None\<rparr> = Inr (Some (PyFloat (score_formula 9 10 50))) \<and>
   score_formula 9 10 50 = 1.125 ^ 9 * 10 * (9 + 50\<^sup>2) * 2 * 1 \<and>
   calculate_zodiac_sale_price
     \<lparr>zodiac_rarity = Some 9, zodiac_quality = Some 10, zodiac_level = Some 50,
      luck = None, immo_number = None\<rparr> =
     Inr (Some (PyFloat ((score_formula 9 10 50 / 10) powr 0.75 * 1.1 powr 9)))"
proof -
  let ?c = "\<lparr>zodiac_rarity = Some 9, zodiac_quality = Some 10, zodiac_level = Some 50,
      luck = None, immo_number = None\<rparr>"
  let ?x = "score_formula 9 10 50"
  have f: "?x = 1.125 ^ 9 * 10 * (9 + 50\<^sup>2) * 2 * 1"
    by (simp add: score_formula_def)
  have o: "\<not> score_overflows 9 50"
    by (simp add: score_overflows_def float_max_def power_divide)
  have sv: "score_value 9 10 50 = PyFloat ?x"
    by (simp add: score_value_def f to_range_def float_max_def power_divide)
  have s: "calculate_zodiac_score ?c = Inr (Some (PyFloat ?x))"
    using o sv calculate_zodiac_score_eq[of ?c 9 10 50] by simp
  have pos: "0 \<le> ?x" by (simp add: f)
  have x10: "?x / 10 \<le> 2 ^ 30" by (simp add: f power_divide)
  have "to_range (?x / 10) = Finite (?x / 10)"
    using pos x10 by (intro to_range_small) simp
  then have 0: "py_truediv (PyFloat ?x) (PyFloat 10) = Inr (PyFloat (?x / 10))" by simp
  have r1: "(?x / 10) powr 0.75 \<le> 2 ^ 30"
  proof -
    have "(?x / 10) powr 0.75 \<le> (2 ^ 30) powr 0.75"
      using pos x10 by (intro powr_mono2) simp_all
    also have "\<dots> \<le> (2 ^ 30) powr 1" by (intro powr_mono) simp_all
    finally show ?thesis by simp
  qed
  then have 1: "py_pow (PyFloat (?x / 10)) (PyFloat 0.75) =
      Inr (PyFloat ((?x / 10) powr 0.75))"
    using pos two_pow_70_le by (simp add: float_pow_nonneg)
  have r2: "(1.1::real) powr 9 \<le> 2 ^ 30" by (simp add: power_divide)
  then have 2: "float_pow 1.1 9 = Inr (PyFloat (1.1 powr 9))"
    using two_pow_70_le by (simp add: float_pow_pos)
  have e: "calculate_zodiac_sale_price ?c =
     (if score_overflows 9 50 then Inr None
      else try_except
        (bind_exn (py_truediv (score_value 9 10 50) (PyFloat 10)) (\<lambda>base_calc.
         bind_exn (py_pow base_calc (PyFloat 0.75)) (\<lambda>pb.
         bind_exn (float_pow 1.1 9) (\<lambda>p11. Inr (Some (py_mul pb p11)))))) None)"
    by (rule calculate_zodiac_sale_price_eq) simp_all
  have "\<exists>v. calculate_zodiac_sale_price ?c = Inr (Some v)"
    by (simp only: e o if_False sv 0 1 2 bind_exn_def try_except_def sum.case) simp
  then obtain v where v: "calculate_zodiac_sale_price ?c = Inr (Some v)" by blast
  have "(?x / 10) powr 0.75 * 1.1 powr 9 \<le> 2 ^ 30 * 2 ^ 30"
    using r1 r2 by (intro mult_mono) simp_all
  then have "\<bar>(?x / 10) powr 0.75 * 1.1 powr 9\<bar> \<le> 2 ^ 100" by simp
  then have "to_range ((?x / 10) powr 0.75 * 1.1 powr 9) = Finite ((?x / 10) powr 0.75 * 1.1 powr 9)"
    by (rule to_range_small)
  moreover have "v = PyF (to_range ((?x / 10) powr 0.75 * 1.1 powr 9))"
    using sale_price_from_score [of ?c 9 10 50, OF _ _ _ s v] pos by simp
  ultimately show ?thesis using s f v by simp
qed

section \<open>A sale price that is not a float (C3)\<close>

text \<open>
  C3 says that a basic formula returns either \<^verbatim>\<open>None\<close> or a real number, and that a
  negative base under a fractional power gives \<^verbatim>\<open>None\<close>. With rarity 0, quality -1 and
  level 1 the base of \<^verbatim>\<open>base_calc ** 0.75\<close> is -1: the operator raises nothing, and
  \<^verbatim>\<open>calculate_zodiac_sale_price\<close> returns a complex number.
\<close>

theorem sale_price_complex:
  "calculate_zodiac_sale_price
     \<lparr>zodiac_rarity = Some 0, zodiac_quality = Some (- 1), zodiac_level = Some 1,
      luck = None, immo_number = None\<rparr> = Inr (Some (PyComplex (cis (3 * pi / 4))))"
proof -
  have n: "\<not> is_integral (3 / 4)"
    by (simp add: is_integral_def)
  have b: "\<not> float_max < \<bar>Re (cis (pi * 3 / 4))\<bar>" "\<not> float_max < \<bar>Im (cis (pi * 3 / 4))\<bar>"
    using cis_bounds[of "pi * 3 / 4"] by simp_all
  then have p: "float_pow (- 1) (3 / 4) = Inr (PyComplex (cis (3 * pi / 4)))"
    using n by (simp add: float_pow_def Let_def mult.commute)
  have o: "\<not> score_overflows 0 1"
    using one_le_float_max by (simp add: score_overflows_def)
  have sv: "score_value 0 (- 1) 1 = PyFloat (- 10)"
    by (simp add: score_value_def to_range_def float_max_def)
  have d: "py_truediv (PyFloat (- 10)) (PyFloat 10) = Inr (PyFloat (- 1))"
    by (simp add: to_range_def float_max_def)
  have q: "float_pow 1.1 0 = Inr (PyFloat 1)" by (simp add: float_pow_def)
  have c: "\<bar>cos (3 * pi / 4)\<bar> \<le> float_max" "\<bar>sin (3 * pi / 4)\<bar> \<le> float_max"
    using cis_bounds[of "3 * pi / 4"] by simp_all
  have m: "py_mul (PyComplex (cis (3 * pi / 4))) (PyFloat 1) = PyComplex (cis (3 * pi / 4))"
    using c by (simp add: fsub_def to_range_Finite)
  have pw: "py_pow (PyFloat (- 1)) (PyFloat 0.75) = Inr (PyComplex (cis (3 * pi / 4)))"
    using p by simp
  have e: "calculate_zodiac_sale_price
     \<lparr>zodiac_rarity = Some 0, zodiac_quality = Some (- 1), zodiac_level = Some 1,
      luck = None, immo_number = None\<rparr> =
     (if score_overflows 0 1 then Inr None
      else try_except
        (bind_exn (py_truediv (score_value 0 (- 1) 1) (PyFloat 10)) (\<lambda>base_calc.
         bind_exn (py_pow base_calc (PyFloat 0.75)) (\<lambda>pb.
         bind_exn (float_pow 1.1 0) (\<lambda>p11. Inr (Some (py_mul pb p11)))))) None)"
    by (rule calculate_zodiac_sale_price_eq) simp_all
  show ?thesis
    by (simp only: e o if_False sv d pw q m bind_exn_def try_except_def sum.case)
qed

section \<open>Continuity at the breakpoints (C8)\<close>

text \<open>
  C8. At each breakpoint of a tier, the point where the source passes from one range's
  formula to the next by adding a decay factor, the weight that
  \<^verbatim>\<open>calculate_rarity_weights\<close> stores under that tier is a continuous function of the
  zodiac luck: the values just below the breakpoint tend to the value at it, since the
  added factor is 1 there.
\<close>

theorem tier_weight_continuous:
  "(t, b) \<in> set breakpoints \<Longrightarrow> isCont (tier_weight t) b"
  using isCont_garbage_2 isCont_common_2 isCont_uncommon_3 isCont_rare_5 isCont_epic_8
    isCont_legendary_12 isCont_mythic_20 isCont_godly_30 isCont_divine_40 isCont_divine_50
  by (auto simp: breakpoints_def tier_weight_fun_eqs)

theorem tier_weight_continuous_witness:
  "(''Divine'', 50) \<in> set breakpoints \<and> isCont (tier_weight ''Divine'') 50"
proof -
  have h: "(''Divine'', 50) \<in> set breakpoints" by (simp add: breakpoints_def)
  show ?thesis using h tier_weight_continuous [OF h] by simp
qed

section \<open>Monotone decay (C9)\<close>

text \<open>
  C9, as stated, says that beyond a tier's first decay breakpoint its weight never
  increases. For Divine the first decay factor, \<open>0.92 ^ (L - 40)\<close>, is weaker than the
  growth \<open>1.2 ^ (L - 12)\<close> of the base (\<open>1.2 * 0.92 > 1\<close>), so the weight keeps growing
  on \<open>[40, 50)\<close>: from \<open>L = 40\<close> to \<open>L = 41\<close> it increases.
\<close>

theorem decay_counterexample:
  "(''Divine'', 40) \<in> set breakpoints \<and> (40::real) \<le> 41 \<and>
   tier_weight ''Divine'' 40 < tier_weight ''Divine'' 41"
  by (simp add: breakpoints_def tier_weight_eqs divine_table_def power_divide)

text \<open>
  C9, amended. For every tier with a decay range and all \<open>L1 \<le> L2\<close> at or beyond the
  point where its decay begins (its first breakpoint; for Divine its second breakpoint,
  50), the weight at \<open>L2\<close> is at most the weight at \<open>L1\<close>.
\<close>

theorem decay_monotone:
  "(t, b) \<in> set decay_starts \<Longrightarrow> b \<le> L1 \<Longrightarrow> L1 \<le> L2 \<Longrightarrow>
     tier_weight t L2 \<le> tier_weight t L1"
  using garbage_decay common_decay uncommon_decay rare_decay epic_decay legendary_decay
    mythic_decay godly_decay divine_decay
  by (auto simp: decay_starts_def tier_weight_eqs)

theorem decay_monotone_witness:
  "(''Uncommon'', 3) \<in> set decay_starts \<and> (3::real) \<le> 3 \<and> (3::real) \<le> 4 \<and>
   tier_weight ''Uncommon'' 4 \<le> tier_weight ''Uncommon'' 3 \<and>
   tier_weight ''Uncommon'' 3 = 33 \<and> tier_weight ''Uncommon'' 4 = 27.75"
proof -
  have h: "(''Uncommon'', 3) \<in> set decay_starts" by (simp add: decay_starts_def)
  have v: "tier_weight ''Uncommon'' 3 = 33" "tier_weight ''Uncommon'' 4 = 27.75"
    by (simp_all add: tier_weight_eqs uncommon_table_def power_divide)
  show ?thesis using h v decay_monotone [OF h, of 3 4] by simp
qed

end
